theory Spec2Isabelle
  imports Main "HOL-Library.Word" "HOL-Library.Signed_Division"
begin

unbundle bit_operations_syntax

section \<open>Registers, operands and value kinds\<close>

text \<open>
  The Liftoff backend for RISC-V 32 (\<^verbatim>\<open>liftoff-assembler-riscv32.h\<close>) drives a macro
  assembler: every lowering rule is a sequence of calls such as \<^verbatim>\<open>Lw(dst, MemOperand(fp, 4))\<close>.
  The embedding keeps that level. A lowering rule is a function that appends
  macro-assembler calls, one \<open>instr\<close> per call and with the operands the source passes, to
  the buffer of the assembler state; a small-step machine (further down) gives these calls
  their architectural effect on registers and memory.
\<close>

datatype Register = no_reg | XReg nat

definition zero_reg :: Register where "zero_reg = XReg 0"
definition ra :: Register where "ra = XReg 1"
definition sp :: Register where "sp = XReg 2"
definition fp :: Register where "fp = XReg 8"
definition a0 :: Register where "a0 = XReg 10"
definition a1 :: Register where "a1 = XReg 11"
definition a2 :: Register where "a2 = XReg 12"
definition a3 :: Register where "a3 = XReg 13"
definition a4 :: Register where "a4 = XReg 14"
definition a5 :: Register where "a5 = XReg 15"
definition t3 :: Register where "t3 = XReg 28"
definition t5 :: Register where "t5 = XReg 30"

text \<open>
  Modelled from the spec: the fixed temporary register identities that the lowering rules
  refer to implicitly (section 9, "global mutable scratch registers"). Their declarations
  (\<^verbatim>\<open>register-riscv.h\<close>) are not among the sources; the numbers are those of the RISC-V
  port (\<open>s3\<close>, \<open>s4\<close>, \<open>a0\<close>, \<open>v24\<close>). No theorem below depends on the numbers beyond the
  registers being different from each other and from \<open>zero_reg\<close>, \<open>sp\<close> and \<open>fp\<close>.
\<close>

definition kScratchReg :: Register where "kScratchReg = XReg 19"
definition kScratchReg2 :: Register where "kScratchReg2 = XReg 20"
definition kWasmInstanceRegister :: Register where "kWasmInstanceRegister = a0"

datatype FPURegister = FReg nat
type_synonym DoubleRegister = FPURegister

datatype VRegister = VReg nat

fun toV :: "FPURegister \<Rightarrow> VRegister" where
  "toV (FReg n) = VReg n"

definition v0 :: VRegister where "v0 = VReg 0"
definition kSimd128ScratchReg :: VRegister where "kSimd128ScratchReg = VReg 24"

named_theorems reg_defs \<open>the numbers of the named registers\<close>

lemmas named_registers [reg_defs] =
  zero_reg_def ra_def sp_def fp_def a0_def a1_def a2_def a3_def a4_def a5_def t3_def t5_def
  kScratchReg_def kScratchReg2_def
  kWasmInstanceRegister_def v0_def kSimd128ScratchReg_def

text \<open>
  A \<open>LiftoffRegister\<close> is one general-purpose register, a pair of them (low word, high
  word) for a 64-bit integer, or one floating-point register. The accessors of the class
  check the shape with a \<^verbatim>\<open>DCHECK\<close>; here they return \<open>None\<close> on the wrong shape.
\<close>

datatype LiftoffRegister =
    GpReg Register
  | GpPair Register Register
  | FpReg DoubleRegister

fun gp :: "LiftoffRegister \<Rightarrow> Register option" where
  "gp (GpReg r) = Some r"
| "gp _ = None"

fun low_gp :: "LiftoffRegister \<Rightarrow> Register option" where
  "low_gp (GpPair lo hi) = Some lo"
| "low_gp _ = None"

fun high_gp :: "LiftoffRegister \<Rightarrow> Register option" where
  "high_gp (GpPair lo hi) = Some hi"
| "high_gp _ = None"

fun fp_of :: "LiftoffRegister \<Rightarrow> DoubleRegister option" where
  "fp_of (FpReg d) = Some d"
| "fp_of _ = None"

text \<open>
  Modelled from the spec: \<open>ValueKind\<close> (section 3: Int32, Int64, Float32, Float64,
  Vector128, Reference, OptionalReference, RTT); the enum itself is declared in
  \<^verbatim>\<open>value-type.h\<close>, which is not among the sources.
\<close>

datatype ValueKind = kI32 | kI64 | kF32 | kF64 | kS128 | kRef | kOptRef | kRtt

datatype RegPairHalf = kLowWord | kHighWord

datatype MemOperand = MemOperand (rm: Register) (offset: int)

datatype Operand = OpReg Register | OpImm int

datatype Condition = eq | ne | lt | le | gt | ge | ult | ule | ugt | uge

datatype VSew = E8 | E16 | E32 | E64

datatype Vlmul = m1

datatype MaskType = Mask | NoMask

datatype RuntimeStubId = kWasmStackOverflow

datatype LiftoffBailoutReason = kUnsupportedArchitecture | kSimd

datatype StoreType =
    kI32Store | kI64Store | kF32Store | kF64Store | kS128Store
  | kI32Store8 | kI32Store16 | kI64Store8 | kI64Store16 | kI64Store32

datatype Binop = kAdd | kSub | kAnd | kOr | kXor | kExchange

type_synonym Label = string

definition kSystemPointerSize :: int where "kSystemPointerSize = 4"
definition kDoubleSize :: int where "kDoubleSize = 8"

text \<open>
  The C++ type \<^verbatim>\<open>int\<close> has 32 bits: the result of an addition, a subtraction or a
  multiplication on it is the mathematical result reduced modulo \<open>2 ^ 32\<close> into the range
  from \<open>- 2 ^ 31\<close> up to \<open>2 ^ 31 - 1\<close>.
\<close>

definition int32 :: "int \<Rightarrow> int" where
  "int32 x = sint (word_of_int x :: 32 word)"

text \<open>
  Modelled from the spec: \<open>LiftoffAssembler::kStackSlotSize\<close>, declared in
  \<^verbatim>\<open>liftoff-assembler.h\<close>, which is not among the sources. Section 4.5 packs a 64-bit
  integer "as two word-size half-slots", so a slot is two words. The sources agree:
  \<open>GetHalfStackSlot\<close> puts the high word at \<open>kStackSlotSize / 2\<close>, which has to be the
  \<open>kHighWordOffset = 4\<close> of the same file; \<open>PushRegisters\<close> reserves
  \<open>num_fp_regs * kStackSlotSize\<close> bytes for \<open>num_fp_regs\<close> doubles; and
  \<open>FillStackSlotsWithZero\<close> asserts that what remains after whole slots is 4 or 0.
\<close>

definition kStackSlotSize :: int where "kStackSlotSize = 8"

definition kLowWordOffset :: int where "kLowWordOffset = 0"
definition kHighWordOffset :: int where "kHighWordOffset = 4"

section \<open>Macro-assembler calls\<close>

text \<open>
  One constructor per assembler entry point that the modelled rules call, named as in the
  source and with the arguments in the order the source passes them. \<open>and_\<close>, \<open>or_\<close>,
  \<open>xor_\<close> and \<open>bind\<close> are written \<open>and_rr\<close>, \<open>or_rr\<close>, \<open>xor_rr\<close> and \<open>bind_label\<close>;
  \<open>Push\<close> and \<open>Pop\<close> carry their number of operands; \<open>VU.set\<close> is \<open>VU_set\<close>, the
  vector store \<open>vs\<close> and load \<open>vl\<close> are \<open>vs_v\<close> and \<open>vl_v\<close>. The calls are grouped
  into memory, arithmetic, control and vector calls, and \<open>instr\<close> is their sum.
\<close>

datatype mem_instr =
    Lw Register MemOperand
  | Sw Register MemOperand
  | LoadFloat FPURegister MemOperand
  | StoreFloat FPURegister MemOperand
  | LoadDouble FPURegister MemOperand
  | StoreDouble FPURegister MemOperand
  | lbu Register Register int
  | lhu Register Register int
  | sb Register Register int
  | sh Register Register int
  | Push1 Register
  | Push2 Register Register
  | Pop2 Register Register

datatype alu_instr =
    addi Register Register int
  | Add Register Register Operand
  | add Register Register Register
  | sub Register Register Register
  | and_rr Register Register Register
  | or_rr Register Register Register
  | xor_rr Register Register Register
  | mv Register Register
  | li Register int
  | CompareI Register Register Operand Condition
  | Div Register Register Register
  | Divu Register Register Register
  | Mod Register Register Register
  | Modu Register Register Register
  | slli Register Register int
  | srli Register Register int

datatype ctl_instr =
    nop
  | GenPCRelativeJump Register int
  | Branch Label Condition Register Operand
  | BranchShort Label Condition Register Operand
  | Call RuntimeStubId
  | stop
  | bind_label Label
  | bnez Register Label
  | sync
  | lr_w bool bool Register Register
  | lr_d bool bool Register Register
  | sc_w bool bool Register Register Register
  | sc_d bool bool Register Register Register

datatype vec_instr =
    VU_set Register VSew Vlmul
  | vs_v VRegister Register int VSew
  | vl_v VRegister Register int VSew
  | vmfeq_vv VRegister VRegister VRegister
  | vand_vv VRegister VRegister VRegister
  | vmv_vx VRegister Register
  | vmv_vv VRegister VRegister
  | vfmin_vv VRegister VRegister VRegister MaskType
  | vfmax_vv VRegister VRegister VRegister MaskType
  | vslidedown_vi VRegister VRegister nat
  | vmv_xs Register VRegister
  | vmv_sx VRegister Register
  | vmerge_vx VRegister Register VRegister
  | vfmv_fs FPURegister VRegister
  | fmv_x_w Register FPURegister
  | fmv_x_d Register FPURegister

datatype instr = Mi mem_instr | Ai alu_instr | Ci ctl_instr | Vi vec_instr

section \<open>The assembler state\<close>

datatype error = DCheckFailed | Unreachable | NoScratchRegister | NoUnusedRegister

text \<open>
  \<open>buffer\<close> is the code emitted so far. \<open>encoded_size\<close> is the instruction encoder (an
  external collaborator, section 6): the number of bytes it emits for a call, which is all
  that \<open>pc_offset\<close> needs. \<open>scratch_register_list\<close> is the list that
  \<open>UseScratchRegisterScope\<close> acquires from, \<open>cache_gp_regs\<close> the general-purpose
  registers the allocator may hand out. \<open>FLAG_stack_size\<close> (in KB) and \<open>FLAG_debug_code\<close>
  are runtime flags, \<open>kRealStackLimitAddressOffset\<close> a field offset of the instance
  object; the three are declared outside the sources and are taken as parameters.
  \<open>patched\<close> lists what a patching assembler wrote over code emitted earlier: the byte
  offset it started at and the calls made on it. \<open>safepoints\<close> are the offsets handed to
  the safepoint table builder.
\<close>

record LiftoffAssembler =
  buffer :: "instr list"
  encoded_size :: "instr \<Rightarrow> int"
  max_used_spill_offset :: int
  scratch_register_list :: "Register list"
  cache_gp_regs :: "Register list"
  bailout_reason :: "(LiftoffBailoutReason \<times> string) option"
  safepoints :: "int list"
  patched :: "(int \<times> instr list) list"
  FLAG_stack_size :: int
  FLAG_debug_code :: bool
  kRealStackLimitAddressOffset :: int

definition emit :: "instr \<Rightarrow> LiftoffAssembler \<Rightarrow> LiftoffAssembler" where
  "emit i a = a\<lparr>buffer := buffer a @ [i]\<rparr>"

definition emits :: "instr list \<Rightarrow> LiftoffAssembler \<Rightarrow> LiftoffAssembler" where
  "emits is a = a\<lparr>buffer := buffer a @ is\<rparr>"



text \<open>
  Modelled from the spec: \<open>RecordUsedSpillOffset\<close> and \<open>GetTotalFrameSize\<close> of
  \<^verbatim>\<open>liftoff-assembler.h\<close> (not among the sources): the frame size is the peak spill
  offset (section 3, "it depends on the peak spill offset").
\<close>

definition RecordUsedSpillOffset :: "int \<Rightarrow> LiftoffAssembler \<Rightarrow> LiftoffAssembler" where
  "RecordUsedSpillOffset off a =
     (if off \<ge> max_used_spill_offset a then a\<lparr>max_used_spill_offset := off\<rparr> else a)"


text \<open>
  Modelled from the spec: \<open>UseScratchRegisterScope::Acquire\<close> (the macro assembler is
  not among the sources) takes the first register of the scratch list and removes it; an
  empty list is a fatal invariant violation (section 4.2).
\<close>

definition Acquire :: "Register list \<Rightarrow> error + (Register \<times> Register list)" where
  "Acquire temps = (case temps of [] \<Rightarrow> Inl NoScratchRegister | r # rs \<Rightarrow> Inr (r, rs))"

text \<open>
  Modelled from the spec: \<open>allocate_unused(class, pinned)\<close> of section 4.2 (the source's
  \<open>GetUnusedRegister(kGpReg, pinned)\<close>, declared in \<^verbatim>\<open>liftoff-assembler.h\<close>): a
  register of the class that is not pinned, a fatal invariant violation if there is none.
\<close>

definition GetUnusedRegister :: "Register list \<Rightarrow> Register list \<Rightarrow> error + Register" where
  "GetUnusedRegister candidates pinned =
     (case filter (\<lambda>r. r \<notin> set pinned) candidates of
        [] \<Rightarrow> Inl NoUnusedRegister
      | r # _ \<Rightarrow> Inr r)"

definition bind_err :: "error + 'a \<Rightarrow> ('a \<Rightarrow> error + 'b) \<Rightarrow> error + 'b" where
  "bind_err m f = (case m of Inl e \<Rightarrow> Inl e | Inr x \<Rightarrow> f x)"

definition dcheck :: "'a option \<Rightarrow> error + 'a" where
  "dcheck m = (case m of None \<Rightarrow> Inl DCheckFailed | Some x \<Rightarrow> Inr x)"

section \<open>Frame slots, spill and fill\<close>

definition GetStackSlot :: "int \<Rightarrow> MemOperand" where
  "GetStackSlot off = MemOperand fp (- off)"

definition GetHalfStackSlot :: "int \<Rightarrow> RegPairHalf \<Rightarrow> MemOperand" where
  "GetHalfStackSlot off half =
     (let half_offset = (if half = kLowWord then 0 else kStackSlotSize div 2)
      in MemOperand (if off > 0 then fp else sp) (- off + half_offset))"

text \<open>\<open>liftoff::EnsureNoAlias\<close>: the register returned, the scratch list and the code emitted.\<close>

definition EnsureNoAlias ::
  "Register \<Rightarrow> LiftoffRegister \<Rightarrow> Register list \<Rightarrow> error + (Register \<times> Register list \<times> instr list)" where
  "EnsureNoAlias reg must_not_alias temps =
     bind_err (dcheck (low_gp must_not_alias)) (\<lambda>lo.
     bind_err (dcheck (high_gp must_not_alias)) (\<lambda>hi.
       if reg \<noteq> lo \<and> reg \<noteq> hi then Inr (reg, temps, [])
       else bind_err (Acquire temps) (\<lambda>(tmp, temps').
         if lo = tmp \<or> hi = tmp then Inl DCheckFailed
         else Inr (tmp, temps', [Ai (mv tmp reg)]))))"

text \<open>
  The vector store and load of \<open>Spill\<close> and \<open>Fill\<close> for \<open>kS128\<close>: the address is formed
  in \<open>kScratchReg\<close> unless the slot offset is zero.
\<close>

definition Spill :: "int \<Rightarrow> LiftoffRegister \<Rightarrow> ValueKind \<Rightarrow> LiftoffAssembler \<Rightarrow> error + LiftoffAssembler" where
  "Spill off reg kind a0' =
     (let a = RecordUsedSpillOffset off a0'; dst = GetStackSlot off in
      case kind of
        kI32 \<Rightarrow> bind_err (dcheck (gp reg)) (\<lambda>r. Inr (emit (Mi (Sw r dst)) a))
      | kRef \<Rightarrow> bind_err (dcheck (gp reg)) (\<lambda>r. Inr (emit (Mi (Sw r dst)) a))
      | kOptRef \<Rightarrow> bind_err (dcheck (gp reg)) (\<lambda>r. Inr (emit (Mi (Sw r dst)) a))
      | kRtt \<Rightarrow> bind_err (dcheck (gp reg)) (\<lambda>r. Inr (emit (Mi (Sw r dst)) a))
      | kI64 \<Rightarrow>
          bind_err (dcheck (low_gp reg)) (\<lambda>lo.
          bind_err (dcheck (high_gp reg)) (\<lambda>hi.
            Inr (emits [Mi (Sw lo (GetHalfStackSlot off kLowWord)),
                        Mi (Sw hi (GetHalfStackSlot off kHighWord))] a)))
      | kF32 \<Rightarrow> bind_err (dcheck (fp_of reg)) (\<lambda>d. Inr (emit (Mi (StoreFloat d dst)) a))
      | kF64 \<Rightarrow> bind_err (dcheck (fp_of reg)) (\<lambda>d. Inr (emit (Mi (StoreDouble d dst)) a))
      | kS128 \<Rightarrow>
          bind_err (dcheck (fp_of reg)) (\<lambda>d.
            let dst_reg = (if offset dst = 0 then rm dst else kScratchReg) in
            Inr (emits ([Vi (VU_set kScratchReg E8 m1)]
                        @ (if offset dst \<noteq> 0 then [Ai (Add kScratchReg (rm dst) (OpImm (offset dst)))] else [])
                        @ [Vi (vs_v (toV d) dst_reg 0 E8)]) a)))"

definition Fill :: "LiftoffRegister \<Rightarrow> int \<Rightarrow> ValueKind \<Rightarrow> LiftoffAssembler \<Rightarrow> error + LiftoffAssembler" where
  "Fill reg off kind a =
     (let src = GetStackSlot off in
      case kind of
        kI32 \<Rightarrow> bind_err (dcheck (gp reg)) (\<lambda>r. Inr (emit (Mi (Lw r src)) a))
      | kRef \<Rightarrow> bind_err (dcheck (gp reg)) (\<lambda>r. Inr (emit (Mi (Lw r src)) a))
      | kOptRef \<Rightarrow> bind_err (dcheck (gp reg)) (\<lambda>r. Inr (emit (Mi (Lw r src)) a))
      | kI64 \<Rightarrow>
          bind_err (dcheck (low_gp reg)) (\<lambda>lo.
          bind_err (dcheck (high_gp reg)) (\<lambda>hi.
            Inr (emits [Mi (Lw lo (GetHalfStackSlot off kLowWord)),
                        Mi (Lw hi (GetHalfStackSlot off kHighWord))] a)))
      | kF32 \<Rightarrow> bind_err (dcheck (fp_of reg)) (\<lambda>d. Inr (emit (Mi (LoadFloat d src)) a))
      | kF64 \<Rightarrow> bind_err (dcheck (fp_of reg)) (\<lambda>d. Inr (emit (Mi (LoadDouble d src)) a))
      | kS128 \<Rightarrow>
          bind_err (dcheck (fp_of reg)) (\<lambda>d.
            let src_reg = (if offset src = 0 then rm src else kScratchReg) in
            Inr (emits ([Vi (VU_set kScratchReg E8 m1)]
                        @ (if offset src \<noteq> 0 then [Ai (Add src_reg (rm src) (OpImm (offset src)))] else [])
                        @ [Vi (vl_v (toV d) src_reg 0 E8)]) a))
      | kRtt \<Rightarrow> Inl Unreachable)"

section \<open>Stack frame construction\<close>







function zero_slots :: "int \<Rightarrow> int \<Rightarrow> instr list \<times> int" where
  "zero_slots start remainder =
     (if remainder \<ge> kStackSlotSize
      then (let (code, r) = zero_slots start (remainder - kStackSlotSize)
            in (Mi (Sw zero_reg (GetStackSlot (start + remainder))) # code, r))
      else ([], remainder))"
  by pat_completeness auto
termination
  by (relation "measure (\<lambda>(start, remainder). nat remainder)") (auto simp: kStackSlotSize_def)

definition FillStackSlotsWithZero :: "int \<Rightarrow> int \<Rightarrow> LiftoffAssembler \<Rightarrow> error + LiftoffAssembler" where
  "FillStackSlotsWithZero start size' a' =
     (if \<not> 0 < size' then Inl DCheckFailed
      else
        let a = RecordUsedSpillOffset (start + size') a' in
        if size' \<le> 12 * kStackSlotSize
        then (let (code, remainder) = zero_slots start size' in
              if \<not> (remainder = 4 \<or> remainder = 0) then Inl DCheckFailed
              else Inr (emits (code @ (if remainder \<noteq> 0
                                       then [Mi (Sw zero_reg (GetStackSlot (start + remainder)))]
                                       else [])) a))
        else Inr (emits [Mi (Push2 a1 a0),
                         Ai (Add a0 fp (OpImm (- start - size'))),
                         Ai (Add a1 fp (OpImm (- start))),
                         Ci (bind_label ''loop''),
                         Mi (Sw zero_reg (MemOperand a0 0)),
                         Ai (addi a0 a0 kSystemPointerSize),
                         Ci (BranchShort ''loop'' ne a0 (OpReg a1)),
                         Mi (Pop2 a1 a0)] a))"

section \<open>Integer division\<close>





section \<open>Atomic read-modify-write\<close>

definition CalculateActualAddress ::
  "Register \<Rightarrow> Register \<Rightarrow> int \<Rightarrow> Register \<Rightarrow> error + instr list" where
  "CalculateActualAddress addr_reg offset_reg offset_imm result_reg =
     (if offset_reg = no_reg \<or> addr_reg = no_reg then Inl DCheckFailed
      else Inr ([Ai (Add result_reg addr_reg (OpReg offset_reg))]
                @ (if offset_imm \<noteq> 0 then [Ai (Add result_reg result_reg (OpImm offset_imm))] else [])))"

text \<open>The general-purpose registers of a \<open>LiftoffRegister\<close>, for the pinned list.\<close>

fun gp_regs_of :: "LiftoffRegister \<Rightarrow> Register list" where
  "gp_regs_of (GpReg r) = [r]"
| "gp_regs_of (GpPair lo hi) = [lo, hi]"
| "gp_regs_of (FpReg d) = []"

fun binop_load :: "StoreType \<Rightarrow> Register \<Rightarrow> Register \<Rightarrow> error + instr list" where
  "binop_load kI64Store8 result_reg actual_addr = Inr [Mi (lbu result_reg actual_addr 0), Ci sync]"
| "binop_load kI32Store8 result_reg actual_addr = Inr [Mi (lbu result_reg actual_addr 0), Ci sync]"
| "binop_load kI64Store16 result_reg actual_addr = Inr [Mi (lhu result_reg actual_addr 0), Ci sync]"
| "binop_load kI32Store16 result_reg actual_addr = Inr [Mi (lhu result_reg actual_addr 0), Ci sync]"
| "binop_load kI64Store32 result_reg actual_addr = Inr [Ci (lr_w True False result_reg actual_addr)]"
| "binop_load kI32Store result_reg actual_addr = Inr [Ci (lr_w True False result_reg actual_addr)]"
| "binop_load kI64Store result_reg actual_addr = Inr [Ci (lr_d True False result_reg actual_addr)]"
| "binop_load _ result_reg actual_addr = Inl Unreachable"

fun binop_compute :: "Binop \<Rightarrow> Register \<Rightarrow> Register \<Rightarrow> Register \<Rightarrow> instr" where
  "binop_compute kAdd temp result_reg v = Ai (add temp result_reg v)"
| "binop_compute kSub temp result_reg v = Ai (sub temp result_reg v)"
| "binop_compute kAnd temp result_reg v = Ai (and_rr temp result_reg v)"
| "binop_compute kOr temp result_reg v = Ai (or_rr temp result_reg v)"
| "binop_compute kXor temp result_reg v = Ai (xor_rr temp result_reg v)"
| "binop_compute kExchange temp result_reg v = Ai (mv temp v)"

fun binop_store :: "StoreType \<Rightarrow> Register \<Rightarrow> Register \<Rightarrow> Register \<Rightarrow> error + instr list" where
  "binop_store kI64Store8 store_result actual_addr temp =
     Inr [Ci sync, Mi (sb temp actual_addr 0), Ci sync, Ai (mv store_result zero_reg)]"
| "binop_store kI32Store8 store_result actual_addr temp =
     Inr [Ci sync, Mi (sb temp actual_addr 0), Ci sync, Ai (mv store_result zero_reg)]"
| "binop_store kI64Store16 store_result actual_addr temp =
     Inr [Ci sync, Mi (sh temp actual_addr 0), Ci sync, Ai (mv store_result zero_reg)]"
| "binop_store kI32Store16 store_result actual_addr temp =
     Inr [Ci sync, Mi (sh temp actual_addr 0), Ci sync, Ai (mv store_result zero_reg)]"
| "binop_store kI64Store32 store_result actual_addr temp =
     Inr [Ci (sc_w False True store_result actual_addr temp)]"
| "binop_store kI32Store store_result actual_addr temp =
     Inr [Ci (sc_w False True store_result actual_addr temp)]"
| "binop_store kI64Store store_result actual_addr temp =
     Inr [Ci (sc_w False True store_result actual_addr temp)]"
| "binop_store _ store_result actual_addr temp = Inl Unreachable"

text \<open>
  \<open>liftoff::AtomicBinop\<close>. The three \<open>switch\<close> statements of the source are
  \<open>binop_load\<close>, \<open>binop_compute\<close> and \<open>binop_store\<close>.
\<close>

definition AtomicBinop ::
  "Register \<Rightarrow> Register \<Rightarrow> int \<Rightarrow> LiftoffRegister \<Rightarrow> LiftoffRegister \<Rightarrow> StoreType \<Rightarrow> Binop
   \<Rightarrow> LiftoffAssembler \<Rightarrow> error + LiftoffAssembler" where
  "AtomicBinop dst_addr offset_reg offset_imm val result type op a =
     (let pinned = [dst_addr, offset_reg] @ gp_regs_of val @ gp_regs_of result in
      bind_err (GetUnusedRegister (cache_gp_regs a) pinned) (\<lambda>store_result.
      bind_err (dcheck (gp result)) (\<lambda>result_gp.
      bind_err (dcheck (gp val)) (\<lambda>value_gp.
      bind_err (if result_gp = value_gp \<or> result_gp = dst_addr \<or> result_gp = offset_reg
                then GetUnusedRegister (cache_gp_regs a) (store_result # pinned)
                else Inr result_gp) (\<lambda>result_reg.
      bind_err (Acquire (scratch_register_list a)) (\<lambda>(actual_addr, temps).
      bind_err (CalculateActualAddress dst_addr offset_reg offset_imm actual_addr) (\<lambda>addr_code.
      bind_err (Acquire temps) (\<lambda>(temp, temps').
      bind_err (binop_load type result_reg actual_addr) (\<lambda>load_code.
      bind_err (binop_store type store_result actual_addr temp) (\<lambda>store_code.
        Inr (emits (addr_code @ [Ci (bind_label ''retry'')] @ load_code
                    @ [binop_compute op temp result_reg value_gp] @ store_code
                    @ [Ci (bnez store_result ''retry'')]
                    @ (if result_reg \<noteq> result_gp then [Ai (mv result_gp result_reg)] else []))
               a)))))))))))"

definition AtomicAdd ::
  "Register \<Rightarrow> Register \<Rightarrow> int \<Rightarrow> LiftoffRegister \<Rightarrow> LiftoffRegister \<Rightarrow> StoreType
   \<Rightarrow> LiftoffAssembler \<Rightarrow> error + LiftoffAssembler" where
  "AtomicAdd dst_addr offset_reg offset_imm val result type a =
     AtomicBinop dst_addr offset_reg offset_imm val result type kAdd a"

definition AtomicSub ::
  "Register \<Rightarrow> Register \<Rightarrow> int \<Rightarrow> LiftoffRegister \<Rightarrow> LiftoffRegister \<Rightarrow> StoreType
   \<Rightarrow> LiftoffAssembler \<Rightarrow> error + LiftoffAssembler" where
  "AtomicSub dst_addr offset_reg offset_imm val result type a =
     AtomicBinop dst_addr offset_reg offset_imm val result type kSub a"

definition AtomicAnd ::
  "Register \<Rightarrow> Register \<Rightarrow> int \<Rightarrow> LiftoffRegister \<Rightarrow> LiftoffRegister \<Rightarrow> StoreType
   \<Rightarrow> LiftoffAssembler \<Rightarrow> error + LiftoffAssembler" where
  "AtomicAnd dst_addr offset_reg offset_imm val result type a =
     AtomicBinop dst_addr offset_reg offset_imm val result type kAnd a"

definition AtomicOr ::
  "Register \<Rightarrow> Register \<Rightarrow> int \<Rightarrow> LiftoffRegister \<Rightarrow> LiftoffRegister \<Rightarrow> StoreType
   \<Rightarrow> LiftoffAssembler \<Rightarrow> error + LiftoffAssembler" where
  "AtomicOr dst_addr offset_reg offset_imm val result type a =
     AtomicBinop dst_addr offset_reg offset_imm val result type kOr a"

definition AtomicXor ::
  "Register \<Rightarrow> Register \<Rightarrow> int \<Rightarrow> LiftoffRegister \<Rightarrow> LiftoffRegister \<Rightarrow> StoreType
   \<Rightarrow> LiftoffAssembler \<Rightarrow> error + LiftoffAssembler" where
  "AtomicXor dst_addr offset_reg offset_imm val result type a =
     AtomicBinop dst_addr offset_reg offset_imm val result type kXor a"

definition AtomicExchange ::
  "Register \<Rightarrow> Register \<Rightarrow> int \<Rightarrow> LiftoffRegister \<Rightarrow> LiftoffRegister \<Rightarrow> StoreType
   \<Rightarrow> LiftoffAssembler \<Rightarrow> error + LiftoffAssembler" where
  "AtomicExchange dst_addr offset_reg offset_imm val result type a =
     AtomicBinop dst_addr offset_reg offset_imm val result type kExchange a"

text \<open>
  \<open>AtomicCompareExchange\<close>. \<open>result_gp\<close> is \<open>result.gp()\<close>, the register the caller
  designated; \<open>result_reg\<close> is the register the value is loaded into. \<open>cmpxchg_body\<close> is
  the \<open>switch\<close> of the source.
\<close>

fun cmpxchg_body ::
  "StoreType \<Rightarrow> Register \<Rightarrow> Register \<Rightarrow> Register \<Rightarrow> Register \<Rightarrow> Register \<Rightarrow> Register
   \<Rightarrow> error + instr list" where
  "cmpxchg_body kI64Store8 result_reg result_gp expected_gp new_value_gp actual_addr store_result =
     Inr [Mi (lbu result_reg actual_addr 0), Ci sync,
          Ci (Branch ''done'' ne result_gp (OpReg expected_gp)),
          Ci sync, Mi (sb new_value_gp actual_addr 0), Ci sync,
          Ai (mv store_result zero_reg)]"
| "cmpxchg_body kI32Store8 result_reg result_gp expected_gp new_value_gp actual_addr store_result =
     Inr [Mi (lbu result_reg actual_addr 0), Ci sync,
          Ci (Branch ''done'' ne result_gp (OpReg expected_gp)),
          Ci sync, Mi (sb new_value_gp actual_addr 0), Ci sync,
          Ai (mv store_result zero_reg)]"
| "cmpxchg_body kI64Store16 result_reg result_gp expected_gp new_value_gp actual_addr store_result =
     Inr [Mi (lhu result_reg actual_addr 0), Ci sync,
          Ci (Branch ''done'' ne result_gp (OpReg expected_gp)),
          Ci sync, Mi (sh new_value_gp actual_addr 0), Ci sync,
          Ai (mv store_result zero_reg)]"
| "cmpxchg_body kI32Store16 result_reg result_gp expected_gp new_value_gp actual_addr store_result =
     Inr [Mi (lhu result_reg actual_addr 0), Ci sync,
          Ci (Branch ''done'' ne result_gp (OpReg expected_gp)),
          Ci sync, Mi (sh new_value_gp actual_addr 0), Ci sync,
          Ai (mv store_result zero_reg)]"
| "cmpxchg_body kI64Store32 result_reg result_gp expected_gp new_value_gp actual_addr store_result =
     Inr [Ci (lr_w True True result_reg actual_addr),
          Ci (Branch ''done'' ne result_gp (OpReg expected_gp)),
          Ci (sc_w True True store_result new_value_gp actual_addr)]"
| "cmpxchg_body kI32Store result_reg result_gp expected_gp new_value_gp actual_addr store_result =
     Inr [Ci (lr_w True True result_reg actual_addr),
          Ci (Branch ''done'' ne result_gp (OpReg expected_gp)),
          Ci (sc_w True True store_result new_value_gp actual_addr)]"
| "cmpxchg_body kI64Store result_reg result_gp expected_gp new_value_gp actual_addr store_result =
     Inr [Ci (lr_d True True result_reg actual_addr),
          Ci (Branch ''done'' ne result_gp (OpReg expected_gp)),
          Ci (sc_d True True store_result new_value_gp actual_addr)]"
| "cmpxchg_body _ result_reg result_gp expected_gp new_value_gp actual_addr store_result =
     Inl Unreachable"

definition AtomicCompareExchange ::
  "Register \<Rightarrow> Register \<Rightarrow> int \<Rightarrow> LiftoffRegister \<Rightarrow> LiftoffRegister \<Rightarrow> LiftoffRegister
   \<Rightarrow> StoreType \<Rightarrow> LiftoffAssembler \<Rightarrow> error + LiftoffAssembler" where
  "AtomicCompareExchange dst_addr offset_reg offset_imm expected new_value result type a =
     (let pinned = [dst_addr, offset_reg] @ gp_regs_of expected @ gp_regs_of new_value in
      bind_err (dcheck (gp result)) (\<lambda>result_gp.
      bind_err (if result_gp \<in> set pinned then GetUnusedRegister (cache_gp_regs a) pinned
                else Inr result_gp) (\<lambda>result_reg.
      bind_err (Acquire (scratch_register_list a)) (\<lambda>(actual_addr, temps).
      bind_err (CalculateActualAddress dst_addr offset_reg offset_imm actual_addr) (\<lambda>addr_code.
      bind_err (Acquire temps) (\<lambda>(store_result, temps').
      bind_err (dcheck (gp expected)) (\<lambda>expected_gp.
      bind_err (dcheck (gp new_value)) (\<lambda>new_value_gp.
      bind_err (cmpxchg_body type result_reg result_gp expected_gp new_value_gp
                  actual_addr store_result) (\<lambda>body.
        Inr (emits (addr_code @ [Ci (bind_label ''retry'')] @ body
                    @ [Ci (bnez store_result ''retry''), Ci (bind_label ''done'')]
                    @ (if result_reg \<noteq> result_gp then [Ai (mv result_gp result_reg)] else []))
               a))))))))))"

section \<open>SIMD floating-point minimum and maximum\<close>






section \<open>SIMD lane access\<close>

text \<open>
  \<open>extract_lane\<close> slides the lane down to element 0 of the vector scratch register and
  moves that element to the destination; \<open>replace_lane\<close> sets bit \<open>imm_lane_idx\<close> of the
  mask \<open>v0\<close> and merges the scalar into the lanes the mask selects. The shift amounts
  \<open>64 - 8\<close> and \<open>64 - 16\<close> are the source's.
\<close>

definition emit_i8x16_extract_lane_s :: "LiftoffRegister \<Rightarrow> LiftoffRegister \<Rightarrow> nat \<Rightarrow> LiftoffAssembler
    \<Rightarrow> error + LiftoffAssembler" where
  "emit_i8x16_extract_lane_s dst lhs imm_lane_idx a =
     bind_err (dcheck (fp_of lhs)) (\<lambda>l.
     bind_err (dcheck (gp dst)) (\<lambda>d.
       Inr (emits [Vi (VU_set kScratchReg E8 m1),
                   Vi (vslidedown_vi kSimd128ScratchReg (toV l) imm_lane_idx),
                   Vi (vmv_xs d kSimd128ScratchReg)] a)))"

definition emit_i8x16_extract_lane_u :: "LiftoffRegister \<Rightarrow> LiftoffRegister \<Rightarrow> nat \<Rightarrow> LiftoffAssembler
    \<Rightarrow> error + LiftoffAssembler" where
  "emit_i8x16_extract_lane_u dst lhs imm_lane_idx a =
     bind_err (dcheck (fp_of lhs)) (\<lambda>l.
     bind_err (dcheck (gp dst)) (\<lambda>d.
       Inr (emits [Vi (VU_set kScratchReg E8 m1),
                   Vi (vslidedown_vi kSimd128ScratchReg (toV l) imm_lane_idx),
                   Vi (vmv_xs d kSimd128ScratchReg),
                   Ai (slli d d (64 - 8)),
                   Ai (srli d d (64 - 8))] a)))"

definition emit_i16x8_extract_lane_s :: "LiftoffRegister \<Rightarrow> LiftoffRegister \<Rightarrow> nat \<Rightarrow> LiftoffAssembler
    \<Rightarrow> error + LiftoffAssembler" where
  "emit_i16x8_extract_lane_s dst lhs imm_lane_idx a =
     bind_err (dcheck (fp_of lhs)) (\<lambda>l.
     bind_err (dcheck (gp dst)) (\<lambda>d.
       Inr (emits [Vi (VU_set kScratchReg E16 m1),
                   Vi (vslidedown_vi kSimd128ScratchReg (toV l) imm_lane_idx),
                   Vi (vmv_xs d kSimd128ScratchReg)] a)))"

definition emit_i16x8_extract_lane_u :: "LiftoffRegister \<Rightarrow> LiftoffRegister \<Rightarrow> nat \<Rightarrow> LiftoffAssembler
    \<Rightarrow> error + LiftoffAssembler" where
  "emit_i16x8_extract_lane_u dst lhs imm_lane_idx a =
     bind_err (dcheck (fp_of lhs)) (\<lambda>l.
     bind_err (dcheck (gp dst)) (\<lambda>d.
       Inr (emits [Vi (VU_set kScratchReg E16 m1),
                   Vi (vslidedown_vi kSimd128ScratchReg (toV l) imm_lane_idx),
                   Vi (vmv_xs d kSimd128ScratchReg),
                   Ai (slli d d (64 - 16)),
                   Ai (srli d d (64 - 16))] a)))"

definition emit_i32x4_extract_lane :: "LiftoffRegister \<Rightarrow> LiftoffRegister \<Rightarrow> nat \<Rightarrow> LiftoffAssembler
    \<Rightarrow> error + LiftoffAssembler" where
  "emit_i32x4_extract_lane dst lhs imm_lane_idx a =
     bind_err (dcheck (fp_of lhs)) (\<lambda>l.
     bind_err (dcheck (gp dst)) (\<lambda>d.
       Inr (emits [Vi (VU_set kScratchReg E32 m1),
                   Vi (vslidedown_vi kSimd128ScratchReg (toV l) imm_lane_idx),
                   Vi (vmv_xs d kSimd128ScratchReg)] a)))"

definition emit_i64x2_extract_lane :: "LiftoffRegister \<Rightarrow> LiftoffRegister \<Rightarrow> nat \<Rightarrow> LiftoffAssembler
    \<Rightarrow> error + LiftoffAssembler" where
  "emit_i64x2_extract_lane dst lhs imm_lane_idx a =
     bind_err (dcheck (fp_of lhs)) (\<lambda>l.
     bind_err (dcheck (gp dst)) (\<lambda>d.
       Inr (emits [Vi (VU_set kScratchReg E64 m1),
                   Vi (vslidedown_vi kSimd128ScratchReg (toV l) imm_lane_idx),
                   Vi (vmv_xs d kSimd128ScratchReg)] a)))"

definition emit_f32x4_extract_lane :: "LiftoffRegister \<Rightarrow> LiftoffRegister \<Rightarrow> nat \<Rightarrow> LiftoffAssembler
    \<Rightarrow> error + LiftoffAssembler" where
  "emit_f32x4_extract_lane dst lhs imm_lane_idx a =
     bind_err (dcheck (fp_of lhs)) (\<lambda>l.
     bind_err (dcheck (fp_of dst)) (\<lambda>d.
       Inr (emits [Vi (VU_set kScratchReg E32 m1),
                   Vi (vslidedown_vi kSimd128ScratchReg (toV l) imm_lane_idx),
                   Vi (vfmv_fs d kSimd128ScratchReg)] a)))"

definition emit_f64x2_extract_lane :: "LiftoffRegister \<Rightarrow> LiftoffRegister \<Rightarrow> nat \<Rightarrow> LiftoffAssembler
    \<Rightarrow> error + LiftoffAssembler" where
  "emit_f64x2_extract_lane dst lhs imm_lane_idx a =
     bind_err (dcheck (fp_of lhs)) (\<lambda>l.
     bind_err (dcheck (fp_of dst)) (\<lambda>d.
       Inr (emits [Vi (VU_set kScratchReg E64 m1),
                   Vi (vslidedown_vi kSimd128ScratchReg (toV l) imm_lane_idx),
                   Vi (vfmv_fs d kSimd128ScratchReg)] a)))"

definition emit_i8x16_replace_lane :: "LiftoffRegister \<Rightarrow> LiftoffRegister \<Rightarrow> LiftoffRegister \<Rightarrow> nat \<Rightarrow> LiftoffAssembler
    \<Rightarrow> error + LiftoffAssembler" where
  "emit_i8x16_replace_lane dst src1 src2 imm_lane_idx a =
     bind_err (dcheck (fp_of dst)) (\<lambda>d.
     bind_err (dcheck (gp src2)) (\<lambda>x.
     bind_err (dcheck (fp_of src1)) (\<lambda>v.
       Inr (emits [Vi (VU_set kScratchReg E64 m1),
                   Ai (li kScratchReg (push_bit imm_lane_idx 1)),
                   Vi (vmv_sx v0 kScratchReg),
                   Vi (VU_set kScratchReg E8 m1),
                   Vi (vmerge_vx (toV d) x (toV v))] a))))"

definition emit_i16x8_replace_lane :: "LiftoffRegister \<Rightarrow> LiftoffRegister \<Rightarrow> LiftoffRegister \<Rightarrow> nat \<Rightarrow> LiftoffAssembler
    \<Rightarrow> error + LiftoffAssembler" where
  "emit_i16x8_replace_lane dst src1 src2 imm_lane_idx a =
     bind_err (dcheck (fp_of dst)) (\<lambda>d.
     bind_err (dcheck (gp src2)) (\<lambda>x.
     bind_err (dcheck (fp_of src1)) (\<lambda>v.
       Inr (emits [Vi (VU_set kScratchReg E16 m1),
                   Ai (li kScratchReg (push_bit imm_lane_idx 1)),
                   Vi (vmv_sx v0 kScratchReg),
                   Vi (vmerge_vx (toV d) x (toV v))] a))))"

definition emit_i32x4_replace_lane :: "LiftoffRegister \<Rightarrow> LiftoffRegister \<Rightarrow> LiftoffRegister \<Rightarrow> nat \<Rightarrow> LiftoffAssembler
    \<Rightarrow> error + LiftoffAssembler" where
  "emit_i32x4_replace_lane dst src1 src2 imm_lane_idx a =
     bind_err (dcheck (fp_of dst)) (\<lambda>d.
     bind_err (dcheck (gp src2)) (\<lambda>x.
     bind_err (dcheck (fp_of src1)) (\<lambda>v.
       Inr (emits [Vi (VU_set kScratchReg E32 m1),
                   Ai (li kScratchReg (push_bit imm_lane_idx 1)),
                   Vi (vmv_sx v0 kScratchReg),
                   Vi (vmerge_vx (toV d) x (toV v))] a))))"

definition emit_i64x2_replace_lane :: "LiftoffRegister \<Rightarrow> LiftoffRegister \<Rightarrow> LiftoffRegister \<Rightarrow> nat \<Rightarrow> LiftoffAssembler
    \<Rightarrow> error + LiftoffAssembler" where
  "emit_i64x2_replace_lane dst src1 src2 imm_lane_idx a =
     bind_err (dcheck (fp_of dst)) (\<lambda>d.
     bind_err (dcheck (gp src2)) (\<lambda>x.
     bind_err (dcheck (fp_of src1)) (\<lambda>v.
       Inr (emits [Vi (VU_set kScratchReg E64 m1),
                   Ai (li kScratchReg (push_bit imm_lane_idx 1)),
                   Vi (vmv_sx v0 kScratchReg),
                   Vi (vmerge_vx (toV d) x (toV v))] a))))"

definition emit_f32x4_replace_lane :: "LiftoffRegister \<Rightarrow> LiftoffRegister \<Rightarrow> LiftoffRegister \<Rightarrow> nat \<Rightarrow> LiftoffAssembler
    \<Rightarrow> error + LiftoffAssembler" where
  "emit_f32x4_replace_lane dst src1 src2 imm_lane_idx a =
     bind_err (dcheck (fp_of src2)) (\<lambda>x.
     bind_err (dcheck (fp_of dst)) (\<lambda>d.
     bind_err (dcheck (fp_of src1)) (\<lambda>v.
       Inr (emits [Vi (VU_set kScratchReg E32 m1),
                   Ai (li kScratchReg (push_bit imm_lane_idx 1)),
                   Vi (vmv_sx v0 kScratchReg),
                   Vi (fmv_x_w kScratchReg x),
                   Vi (vmerge_vx (toV d) kScratchReg (toV v))] a))))"

definition emit_f64x2_replace_lane :: "LiftoffRegister \<Rightarrow> LiftoffRegister \<Rightarrow> LiftoffRegister \<Rightarrow> nat \<Rightarrow> LiftoffAssembler
    \<Rightarrow> error + LiftoffAssembler" where
  "emit_f64x2_replace_lane dst src1 src2 imm_lane_idx a =
     bind_err (dcheck (fp_of src2)) (\<lambda>x.
     bind_err (dcheck (fp_of dst)) (\<lambda>d.
     bind_err (dcheck (fp_of src1)) (\<lambda>v.
       Inr (emits [Vi (VU_set kScratchReg E64 m1),
                   Ai (li kScratchReg (push_bit imm_lane_idx 1)),
                   Vi (vmv_sx v0 kScratchReg),
                   Vi (fmv_x_d kScratchReg x),
                   Vi (vmerge_vx (toV d) kScratchReg (toV v))] a))))"

section \<open>The machine that runs the emitted code\<close>

text \<open>
  Modelled from the spec: the instruction encoder and the processor are external
  collaborators (sections 1 and 6), and the macro assembler is not among the sources. The
  effect of a call is the architectural effect of the RISC-V instructions it stands for,
  on the registers it names and on memory: 32-bit general-purpose registers with \<open>x0\<close>
  hard-wired to zero, 64-bit floating-point registers, 128-bit vector registers, and a
  byte-addressed little-endian memory. \<open>reservation\<close> is the address registered by the
  last load-reserved; \<open>sc_failures\<close> is the number of store-conditionals that the
  environment (other harts) will still make fail.
\<close>

record machine =
  xregs :: "Register \<Rightarrow> 32 word"
  fregs :: "FPURegister \<Rightarrow> 64 word"
  vregs :: "VRegister \<Rightarrow> 128 word"
  mem :: "32 word \<Rightarrow> 8 word"
  vsew :: VSew
  reservation :: "32 word option"
  sc_failures :: nat

definition get_x :: "machine \<Rightarrow> Register \<Rightarrow> 32 word" where
  "get_x s r = (if r = zero_reg then 0 else xregs s r)"

definition set_x :: "Register \<Rightarrow> 32 word \<Rightarrow> machine \<Rightarrow> machine" where
  "set_x r v s = (if r = zero_reg then s else s\<lparr>xregs := (xregs s)(r := v)\<rparr>)"

definition load8 :: "(32 word \<Rightarrow> 8 word) \<Rightarrow> 32 word \<Rightarrow> 32 word" where
  "load8 m a = ucast (m a)"

definition load16 :: "(32 word \<Rightarrow> 8 word) \<Rightarrow> 32 word \<Rightarrow> 32 word" where
  "load16 m a = ucast (m a) OR push_bit 8 (ucast (m (a + 1)))"

definition load32 :: "(32 word \<Rightarrow> 8 word) \<Rightarrow> 32 word \<Rightarrow> 32 word" where
  "load32 m a = ucast (m a) OR push_bit 8 (ucast (m (a + 1)))
                OR push_bit 16 (ucast (m (a + 2))) OR push_bit 24 (ucast (m (a + 3)))"

definition load64 :: "(32 word \<Rightarrow> 8 word) \<Rightarrow> 32 word \<Rightarrow> 64 word" where
  "load64 m a = ucast (load32 m a) OR push_bit 32 (ucast (load32 m (a + 4)))"

definition load128 :: "(32 word \<Rightarrow> 8 word) \<Rightarrow> 32 word \<Rightarrow> 128 word" where
  "load128 m a = ucast (load64 m a) OR push_bit 64 (ucast (load64 m (a + 8)))"

definition store8 :: "(32 word \<Rightarrow> 8 word) \<Rightarrow> 32 word \<Rightarrow> 32 word \<Rightarrow> (32 word \<Rightarrow> 8 word)" where
  "store8 m a v = m(a := ucast v)"

definition store16 :: "(32 word \<Rightarrow> 8 word) \<Rightarrow> 32 word \<Rightarrow> 32 word \<Rightarrow> (32 word \<Rightarrow> 8 word)" where
  "store16 m a v = m(a := ucast v, a + 1 := ucast (drop_bit 8 v))"

definition store32 :: "(32 word \<Rightarrow> 8 word) \<Rightarrow> 32 word \<Rightarrow> 32 word \<Rightarrow> (32 word \<Rightarrow> 8 word)" where
  "store32 m a v = m(a := ucast v, a + 1 := ucast (drop_bit 8 v),
                     a + 2 := ucast (drop_bit 16 v), a + 3 := ucast (drop_bit 24 v))"

definition store64 :: "(32 word \<Rightarrow> 8 word) \<Rightarrow> 32 word \<Rightarrow> 64 word \<Rightarrow> (32 word \<Rightarrow> 8 word)" where
  "store64 m a v = store32 (store32 m a (ucast v)) (a + 4) (ucast (drop_bit 32 v))"

definition store128 :: "(32 word \<Rightarrow> 8 word) \<Rightarrow> 32 word \<Rightarrow> 128 word \<Rightarrow> (32 word \<Rightarrow> 8 word)" where
  "store128 m a v = store64 (store64 m a (ucast v)) (a + 8) (ucast (drop_bit 64 v))"

definition ea :: "machine \<Rightarrow> MemOperand \<Rightarrow> 32 word" where
  "ea s m = get_x s (rm m) + word_of_int (offset m)"

fun operand_val :: "machine \<Rightarrow> Operand \<Rightarrow> 32 word" where
  "operand_val s (OpReg r) = get_x s r"
| "operand_val s (OpImm i) = word_of_int i"

fun cond_holds :: "Condition \<Rightarrow> 32 word \<Rightarrow> 32 word \<Rightarrow> bool" where
  "cond_holds eq a b = (a = b)"
| "cond_holds ne a b = (a \<noteq> b)"
| "cond_holds lt a b = (sint a < sint b)"
| "cond_holds le a b = (sint a \<le> sint b)"
| "cond_holds gt a b = (sint a > sint b)"
| "cond_holds ge a b = (sint a \<ge> sint b)"
| "cond_holds ult a b = (a < b)"
| "cond_holds ule a b = (a \<le> b)"
| "cond_holds ugt a b = (a > b)"
| "cond_holds uge a b = (a \<ge> b)"

text \<open>
  \<open>Push(r)\<close> lowers the stack pointer by a word and stores \<open>r\<close> there; \<open>Push(r1, r2)\<close>
  lowers it by two words and stores \<open>r1\<close> above \<open>r2\<close>; \<open>Pop(r1, r2)\<close> loads \<open>r2\<close> from
  the top word and \<open>r1\<close> from the one above, and raises the stack pointer by two words.
  A floating-point load of 32 bits fills the upper half of the register with ones.
\<close>

fun exec_mem :: "mem_instr \<Rightarrow> machine \<Rightarrow> machine" where
  "exec_mem (Lw rd m) s = set_x rd (load32 (mem s) (ea s m)) s"
| "exec_mem (Sw rs m) s = s\<lparr>mem := store32 (mem s) (ea s m) (get_x s rs)\<rparr>"
| "exec_mem (LoadFloat fd m) s =
     s\<lparr>fregs := (fregs s)(fd := ucast (load32 (mem s) (ea s m)) OR 0xFFFFFFFF00000000)\<rparr>"
| "exec_mem (StoreFloat fs m) s = s\<lparr>mem := store32 (mem s) (ea s m) (ucast (fregs s fs))\<rparr>"
| "exec_mem (LoadDouble fd m) s = s\<lparr>fregs := (fregs s)(fd := load64 (mem s) (ea s m))\<rparr>"
| "exec_mem (StoreDouble fs m) s = s\<lparr>mem := store64 (mem s) (ea s m) (fregs s fs)\<rparr>"
| "exec_mem (lbu rd rs imm) s = set_x rd (load8 (mem s) (get_x s rs + word_of_int imm)) s"
| "exec_mem (lhu rd rs imm) s = set_x rd (load16 (mem s) (get_x s rs + word_of_int imm)) s"
| "exec_mem (sb rs2 rs1 imm) s =
     s\<lparr>mem := store8 (mem s) (get_x s rs1 + word_of_int imm) (get_x s rs2)\<rparr>"
| "exec_mem (sh rs2 rs1 imm) s =
     s\<lparr>mem := store16 (mem s) (get_x s rs1 + word_of_int imm) (get_x s rs2)\<rparr>"
| "exec_mem (Push1 r) s =
     (let s1 = set_x sp (get_x s sp - 4) s
      in s1\<lparr>mem := store32 (mem s1) (get_x s1 sp) (get_x s1 r)\<rparr>)"
| "exec_mem (Push2 r1 r2) s =
     (let s1 = set_x sp (get_x s sp - 8) s;
          s2 = s1\<lparr>mem := store32 (mem s1) (get_x s1 sp + 4) (get_x s1 r1)\<rparr>
      in s2\<lparr>mem := store32 (mem s2) (get_x s2 sp) (get_x s2 r2)\<rparr>)"
| "exec_mem (Pop2 r1 r2) s =
     (let s1 = set_x r2 (load32 (mem s) (get_x s sp)) s;
          s2 = set_x r1 (load32 (mem s1) (get_x s1 sp + 4)) s1
      in set_x sp (get_x s2 sp + 8) s2)"

text \<open>
  Division follows the RISC-V M extension: the quotient is truncated towards zero, a zero
  divisor gives all ones (the dividend, for a remainder), and the one overflowing signed
  quotient wraps to the dividend. A shift amount outside \<open>0 .. 31\<close> has no encoding on a
  32-bit machine.
\<close>

fun exec_alu :: "alu_instr \<Rightarrow> machine \<Rightarrow> machine option" where
  "exec_alu (addi rd rs imm) s = Some (set_x rd (get_x s rs + word_of_int imm) s)"
| "exec_alu (Add rd rs opnd) s = Some (set_x rd (get_x s rs + operand_val s opnd) s)"
| "exec_alu (add rd rs rt) s = Some (set_x rd (get_x s rs + get_x s rt) s)"
| "exec_alu (sub rd rs rt) s = Some (set_x rd (get_x s rs - get_x s rt) s)"
| "exec_alu (and_rr rd rs rt) s = Some (set_x rd (get_x s rs AND get_x s rt) s)"
| "exec_alu (or_rr rd rs rt) s = Some (set_x rd (get_x s rs OR get_x s rt) s)"
| "exec_alu (xor_rr rd rs rt) s = Some (set_x rd (get_x s rs XOR get_x s rt) s)"
| "exec_alu (mv rd rs) s = Some (set_x rd (get_x s rs) s)"
| "exec_alu (li rd imm) s = Some (set_x rd (word_of_int imm) s)"
| "exec_alu (CompareI rd rs opnd cond) s =
     Some (set_x rd (if cond_holds cond (get_x s rs) (operand_val s opnd) then 1 else 0) s)"
| "exec_alu (Div rd rs rt) s =
     Some (set_x rd (if get_x s rt = 0 then - 1
                     else word_of_int (sint (get_x s rs) sdiv sint (get_x s rt))) s)"
| "exec_alu (Divu rd rs rt) s =
     Some (set_x rd (if get_x s rt = 0 then - 1 else get_x s rs div get_x s rt) s)"
| "exec_alu (Mod rd rs rt) s =
     Some (set_x rd (if get_x s rt = 0 then get_x s rs
                     else word_of_int (sint (get_x s rs) smod sint (get_x s rt))) s)"
| "exec_alu (Modu rd rs rt) s =
     Some (set_x rd (if get_x s rt = 0 then get_x s rs else get_x s rs mod get_x s rt) s)"
| "exec_alu (slli rd rs shamt) s =
     (if 0 \<le> shamt \<and> shamt < 32 then Some (set_x rd (push_bit (nat shamt) (get_x s rs)) s)
      else None)"
| "exec_alu (srli rd rs shamt) s =
     (if 0 \<le> shamt \<and> shamt < 32 then Some (set_x rd (drop_bit (nat shamt) (get_x s rs)) s)
      else None)"

text \<open>
  Vector registers hold 128 bits. With element width \<open>w\<close> a register has \<open>128 div w\<close>
  lanes, lane \<open>i\<close> at bits \<open>i * w\<close> and up. The vector length is always the maximum for
  the element width (\<open>VU.set\<close> asks for it), and elements that an instruction does not
  write keep their value.
\<close>

fun sew_bits :: "VSew \<Rightarrow> nat" where
  "sew_bits E8 = 8"
| "sew_bits E16 = 16"
| "sew_bits E32 = 32"
| "sew_bits E64 = 64"

definition lane :: "nat \<Rightarrow> 128 word \<Rightarrow> nat \<Rightarrow> 128 word" where
  "lane w v i = take_bit w (drop_bit (i * w) v)"

fun vec_of :: "nat \<Rightarrow> (nat \<Rightarrow> 128 word) \<Rightarrow> nat \<Rightarrow> 128 word" where
  "vec_of w f 0 = 0"
| "vec_of w f (Suc n) = vec_of w f n OR push_bit (n * w) (take_bit w (f n))"

definition map_lanes :: "nat \<Rightarrow> (nat \<Rightarrow> 128 word) \<Rightarrow> 128 word" where
  "map_lanes w f = vec_of w f (128 div w)"

text \<open>The low \<open>n\<close> bits of a mask register are written, the others kept.\<close>

definition write_mask :: "nat \<Rightarrow> (nat \<Rightarrow> bool) \<Rightarrow> 128 word \<Rightarrow> 128 word" where
  "write_mask n p old = vec_of 1 (\<lambda>i. if p i then 1 else 0) n OR (old AND NOT (mask n))"

text \<open>A scalar register as an element: sign-extended when the element is wider, cut when narrower.\<close>

definition scalar_elem :: "nat \<Rightarrow> 32 word \<Rightarrow> 128 word" where
  "scalar_elem w x = take_bit w (scast x)"

text \<open>
  Floating-point elements are bit patterns. A pattern is a NaN when its exponent field is
  all ones and its fraction is not zero. On the other patterns the order of the values is
  the order of \<open>f_key\<close>: sign and magnitude, with minus zero below plus zero, as the
  minimum and maximum instructions have it. These give NaN only if both operands are NaN.
\<close>

definition exp_bits :: "nat \<Rightarrow> nat" where
  "exp_bits w = (if w = 32 then 8 else 11)"

definition is_nan :: "nat \<Rightarrow> 128 word \<Rightarrow> bool" where
  "is_nan w v \<longleftrightarrow> take_bit (exp_bits w) (drop_bit (w - 1 - exp_bits w) v) = mask (exp_bits w)
                 \<and> take_bit (w - 1 - exp_bits w) v \<noteq> 0"

definition f_key :: "nat \<Rightarrow> 128 word \<Rightarrow> int" where
  "f_key w v = (if bit v (w - 1) then - int (unat (take_bit (w - 1) v)) - 1
                else int (unat (take_bit (w - 1) v)))"

definition canonical_nan :: "nat \<Rightarrow> 128 word" where
  "canonical_nan w = (if w = 32 then 0x7FC00000 else 0x7FF8000000000000)"

definition feq :: "nat \<Rightarrow> 128 word \<Rightarrow> 128 word \<Rightarrow> bool" where
  "feq w a b \<longleftrightarrow> \<not> is_nan w a \<and> \<not> is_nan w b
                \<and> (a = b \<or> (take_bit (w - 1) a = 0 \<and> take_bit (w - 1) b = 0))"

definition fmin :: "nat \<Rightarrow> 128 word \<Rightarrow> 128 word \<Rightarrow> 128 word" where
  "fmin w a b = (if is_nan w a \<and> is_nan w b then canonical_nan w
                 else if is_nan w a then b else if is_nan w b then a
                 else if f_key w a \<le> f_key w b then a else b)"

definition fmax :: "nat \<Rightarrow> 128 word \<Rightarrow> 128 word \<Rightarrow> 128 word" where
  "fmax w a b = (if is_nan w a \<and> is_nan w b then canonical_nan w
                 else if is_nan w a then b else if is_nan w b then a
                 else if f_key w b \<le> f_key w a then a else b)"

definition set_v :: "VRegister \<Rightarrow> 128 word \<Rightarrow> machine \<Rightarrow> machine" where
  "set_v vd v s = s\<lparr>vregs := (vregs s)(vd := v)\<rparr>"

definition fp_sew :: "machine \<Rightarrow> bool" where
  "fp_sew s \<longleftrightarrow> vsew s = E32 \<or> vsew s = E64"

text \<open>
  \<open>vmv.x.s\<close> sign-extends an element narrower than the register and takes the low 32
  bits of a wider one; \<open>vmv.s.x\<close> and \<open>vmerge.vxm\<close> take the scalar as \<open>scalar_elem\<close>;
  \<open>fmv.x.d\<close> does not exist on a 32-bit machine. The unit-stride store and load are
  modelled for the whole register (element width equal to the one set).
\<close>

fun exec_vec :: "vec_instr \<Rightarrow> machine \<Rightarrow> machine option" where
  "exec_vec (VU_set rd sew lmul) s =
     Some (set_x rd (of_nat (128 div sew_bits sew)) (s\<lparr>vsew := sew\<rparr>))"
| "exec_vec (vs_v vd rs umop sew) s =
     (if sew = vsew s then Some (s\<lparr>mem := store128 (mem s) (get_x s rs) (vregs s vd)\<rparr>) else None)"
| "exec_vec (vl_v vd rs umop sew) s =
     (if sew = vsew s then Some (set_v vd (load128 (mem s) (get_x s rs)) s) else None)"
| "exec_vec (vmfeq_vv vd vs2 vs1) s =
     (let w = sew_bits (vsew s) in
      if fp_sew s
      then Some (set_v vd (write_mask (128 div w)
                   (\<lambda>i. feq w (lane w (vregs s vs2) i) (lane w (vregs s vs1) i)) (vregs s vd)) s)
      else None)"
| "exec_vec (vand_vv vd vs2 vs1) s = Some (set_v vd (vregs s vs2 AND vregs s vs1) s)"
| "exec_vec (vmv_vx vd rs) s =
     (let w = sew_bits (vsew s) in Some (set_v vd (map_lanes w (\<lambda>i. scalar_elem w (get_x s rs))) s))"
| "exec_vec (vmv_vv vd vs1) s = Some (set_v vd (vregs s vs1) s)"
| "exec_vec (vfmin_vv vd vs2 vs1 m) s =
     (let w = sew_bits (vsew s) in
      if fp_sew s
      then Some (set_v vd (map_lanes w (\<lambda>i.
                   if m = NoMask \<or> bit (vregs s v0) i
                   then fmin w (lane w (vregs s vs2) i) (lane w (vregs s vs1) i)
                   else lane w (vregs s vd) i)) s)
      else None)"
| "exec_vec (vfmax_vv vd vs2 vs1 m) s =
     (let w = sew_bits (vsew s) in
      if fp_sew s
      then Some (set_v vd (map_lanes w (\<lambda>i.
                   if m = NoMask \<or> bit (vregs s v0) i
                   then fmax w (lane w (vregs s vs2) i) (lane w (vregs s vs1) i)
                   else lane w (vregs s vd) i)) s)
      else None)"
| "exec_vec (vslidedown_vi vd vs2 k) s =
     (let w = sew_bits (vsew s) in
      Some (set_v vd (map_lanes w (\<lambda>i.
              if i + k < 128 div w then lane w (vregs s vs2) (i + k) else 0)) s))"
| "exec_vec (vmv_xs rd vs2) s =
     (let w = sew_bits (vsew s) in
      Some (set_x rd (if w < 32 then signed_take_bit (w - 1) (ucast (lane w (vregs s vs2) 0))
                      else ucast (lane w (vregs s vs2) 0)) s))"
| "exec_vec (vmv_sx vd rs) s =
     (let w = sew_bits (vsew s) in
      Some (set_v vd (map_lanes w (\<lambda>i.
              if i = 0 then scalar_elem w (get_x s rs) else lane w (vregs s vd) i)) s))"
| "exec_vec (vmerge_vx vd rs1 vs2) s =
     (let w = sew_bits (vsew s) in
      Some (set_v vd (map_lanes w (\<lambda>i.
              if bit (vregs s v0) i then scalar_elem w (get_x s rs1)
              else lane w (vregs s vs2) i)) s))"
| "exec_vec (vfmv_fs fd vs2) s =
     (if vsew s = E32
      then Some (s\<lparr>fregs := (fregs s)(fd := ucast (lane 32 (vregs s vs2) 0) OR 0xFFFFFFFF00000000)\<rparr>)
      else if vsew s = E64
      then Some (s\<lparr>fregs := (fregs s)(fd := ucast (lane 64 (vregs s vs2) 0))\<rparr>)
      else None)"
| "exec_vec (fmv_x_w rd fs) s = Some (set_x rd (ucast (fregs s fs)) s)"
| "exec_vec (fmv_x_d rd fs) s = None"

text \<open>
  Control. The code is a list of calls and the program counter an index into it.
  \<open>bind\<close> marks a position and emits nothing. A branch to a label bound in the code goes
  to that position; a branch to a label that is not bound there (a trap label of the
  caller) leaves the code, as do a call of a runtime stub (it does not return) and a
  pc-relative jump. \<open>lr.w\<close> registers the address; \<open>sc.w\<close> stores and writes zero only
  if the address is the registered one and the environment does not make it fail,
  otherwise it writes a nonzero value and stores nothing. \<open>lr.d\<close> and \<open>sc.d\<close> do not
  exist on a 32-bit machine.
\<close>

datatype exit_kind =
    FellThrough
  | BranchedOut Label
  | CalledStub RuntimeStubId
  | JumpedRel int
  | Stopped
  | IllegalInstr

datatype config = Running nat machine | Exited exit_kind machine

fun find_label :: "Label \<Rightarrow> instr list \<Rightarrow> nat option" where
  "find_label l [] = None"
| "find_label l (i # is) =
     (if i = Ci (bind_label l) then Some 0 else map_option Suc (find_label l is))"

definition goto :: "instr list \<Rightarrow> Label \<Rightarrow> machine \<Rightarrow> config" where
  "goto prog l s = (case find_label l prog of Some k \<Rightarrow> Running k s | None \<Rightarrow> Exited (BranchedOut l) s)"

fun exec_ctl :: "instr list \<Rightarrow> nat \<Rightarrow> ctl_instr \<Rightarrow> machine \<Rightarrow> config" where
  "exec_ctl prog pc nop s = Running (Suc pc) s"
| "exec_ctl prog pc (GenPCRelativeJump rd imm) s = Exited (JumpedRel imm) s"
| "exec_ctl prog pc (Branch l c r opnd) s =
     (if cond_holds c (get_x s r) (operand_val s opnd) then goto prog l s else Running (Suc pc) s)"
| "exec_ctl prog pc (BranchShort l c r opnd) s =
     (if cond_holds c (get_x s r) (operand_val s opnd) then goto prog l s else Running (Suc pc) s)"
| "exec_ctl prog pc (Call stub) s = Exited (CalledStub stub) s"
| "exec_ctl prog pc stop s = Exited Stopped s"
| "exec_ctl prog pc (bind_label l) s = Running (Suc pc) s"
| "exec_ctl prog pc (bnez r l) s =
     (if get_x s r \<noteq> 0 then goto prog l s else Running (Suc pc) s)"
| "exec_ctl prog pc sync s = Running (Suc pc) s"
| "exec_ctl prog pc (lr_w aq rl rd rs1) s =
     Running (Suc pc)
       (set_x rd (load32 (mem s) (get_x s rs1)) (s\<lparr>reservation := Some (get_x s rs1)\<rparr>))"
| "exec_ctl prog pc (lr_d aq rl rd rs1) s = Exited IllegalInstr s"
| "exec_ctl prog pc (sc_w aq rl rd rs1 rs2) s =
     (if reservation s = Some (get_x s rs1) \<and> sc_failures s = 0
      then Running (Suc pc)
             (set_x rd 0 (s\<lparr>mem := store32 (mem s) (get_x s rs1) (get_x s rs2),
                            reservation := None\<rparr>))
      else Running (Suc pc)
             (set_x rd 1 (s\<lparr>reservation := None, sc_failures := sc_failures s - 1\<rparr>)))"
| "exec_ctl prog pc (sc_d aq rl rd rs1 rs2) s = Exited IllegalInstr s"

fun exec_instr :: "instr list \<Rightarrow> nat \<Rightarrow> instr \<Rightarrow> machine \<Rightarrow> config" where
  "exec_instr prog pc (Mi i) s = Running (Suc pc) (exec_mem i s)"
| "exec_instr prog pc (Ai i) s =
     (case exec_alu i s of Some s' \<Rightarrow> Running (Suc pc) s' | None \<Rightarrow> Exited IllegalInstr s)"
| "exec_instr prog pc (Vi i) s =
     (case exec_vec i s of Some s' \<Rightarrow> Running (Suc pc) s' | None \<Rightarrow> Exited IllegalInstr s)"
| "exec_instr prog pc (Ci i) s = exec_ctl prog pc i s"

fun step :: "instr list \<Rightarrow> config \<Rightarrow> config" where
  "step prog (Running pc s) =
     (if pc < length prog then exec_instr prog pc (prog ! pc) s else Exited FellThrough s)"
| "step prog (Exited k s) = Exited k s"

fun run :: "nat \<Rightarrow> instr list \<Rightarrow> config \<Rightarrow> config" where
  "run 0 prog c = c"
| "run (Suc n) prog c = run n prog (step prog c)"

fun exit_of :: "config \<Rightarrow> exit_kind option" where
  "exit_of (Running pc s) = None"
| "exit_of (Exited k s) = Some k"

fun state_of :: "config \<Rightarrow> machine" where
  "state_of (Running pc s) = s"
| "state_of (Exited k s) = s"

fun pc_of :: "config \<Rightarrow> nat option" where
  "pc_of (Running pc s) = Some pc"
| "pc_of (Exited k s) = None"


section \<open>What the emitted sequences are compared with\<close>








text \<open>
  The atomic read-modify-write sequences as the specification describes them
  (section 4.4). \<open>binop_val\<close> is the new value computed from the loaded value and the
  operand. \<open>retry_loop\<close> is the loop with load-reserved and store-conditional;
  \<open>retry_loop_d\<close> is the same shape with the 64-bit load-reserved that the source
  writes for \<open>kI64Store\<close>; \<open>fenced_access\<close> is the plain load and store with fences, the
  store result set to zero so that the closing branch is never taken. \<open>addr_code\<close> forms
  the address and \<open>fixup\<close> moves the loaded value to the designated result register when
  it was loaded into another one. \<open>AtomicRMW\<close> selects the entry point by operation.
\<close>

fun binop_val :: "Binop \<Rightarrow> 32 word \<Rightarrow> 32 word \<Rightarrow> 32 word" where
  "binop_val kAdd old v = old + v"
| "binop_val kSub old v = old - v"
| "binop_val kAnd old v = old AND v"
| "binop_val kOr old v = old OR v"
| "binop_val kXor old v = old XOR v"
| "binop_val kExchange old v = v"

definition retry_loop ::
  "Binop \<Rightarrow> Register \<Rightarrow> Register \<Rightarrow> Register \<Rightarrow> Register \<Rightarrow> Register \<Rightarrow> instr list" where
  "retry_loop op result_reg temp store_result actual_addr v =
     [Ci (bind_label ''retry''), Ci (lr_w True False result_reg actual_addr),
      binop_compute op temp result_reg v,
      Ci (sc_w False True store_result actual_addr temp),
      Ci (bnez store_result ''retry'')]"

definition retry_loop_d ::
  "Binop \<Rightarrow> Register \<Rightarrow> Register \<Rightarrow> Register \<Rightarrow> Register \<Rightarrow> Register \<Rightarrow> instr list" where
  "retry_loop_d op result_reg temp store_result actual_addr v =
     [Ci (bind_label ''retry''), Ci (lr_d True False result_reg actual_addr),
      binop_compute op temp result_reg v,
      Ci (sc_w False True store_result actual_addr temp),
      Ci (bnez store_result ''retry'')]"

definition fenced_access ::
  "bool \<Rightarrow> Binop \<Rightarrow> Register \<Rightarrow> Register \<Rightarrow> Register \<Rightarrow> Register \<Rightarrow> Register \<Rightarrow> instr list" where
  "fenced_access byte op result_reg temp store_result actual_addr v =
     [Ci (bind_label ''retry''),
      Mi (if byte then lbu result_reg actual_addr 0 else lhu result_reg actual_addr 0), Ci sync,
      binop_compute op temp result_reg v,
      Ci sync, Mi (if byte then sb temp actual_addr 0 else sh temp actual_addr 0), Ci sync,
      Ai (mv store_result zero_reg),
      Ci (bnez store_result ''retry'')]"

definition rmw_body ::
  "StoreType \<Rightarrow> Binop \<Rightarrow> Register \<Rightarrow> Register \<Rightarrow> Register \<Rightarrow> Register \<Rightarrow> Register \<Rightarrow> instr list" where
  "rmw_body type op result_reg temp store_result actual_addr v =
     (if type = kI32Store \<or> type = kI64Store32
      then retry_loop op result_reg temp store_result actual_addr v
      else if type = kI64Store
      then retry_loop_d op result_reg temp store_result actual_addr v
      else fenced_access (type = kI32Store8 \<or> type = kI64Store8) op result_reg temp store_result
             actual_addr v)"

definition addr_code :: "Register \<Rightarrow> Register \<Rightarrow> int \<Rightarrow> Register \<Rightarrow> instr list" where
  "addr_code dst_addr offset_reg offset_imm actual_addr =
     [Ai (Add actual_addr dst_addr (OpReg offset_reg))]
     @ (if offset_imm \<noteq> 0 then [Ai (Add actual_addr actual_addr (OpImm offset_imm))] else [])"

definition fixup :: "Register \<Rightarrow> Register \<Rightarrow> instr list" where
  "fixup result_gp result_reg =
     (if result_reg \<noteq> result_gp then [Ai (mv result_gp result_reg)] else [])"

fun AtomicRMW ::
  "Binop \<Rightarrow> Register \<Rightarrow> Register \<Rightarrow> int \<Rightarrow> LiftoffRegister \<Rightarrow> LiftoffRegister \<Rightarrow> StoreType
   \<Rightarrow> LiftoffAssembler \<Rightarrow> error + LiftoffAssembler" where
  "AtomicRMW kAdd = AtomicAdd"
| "AtomicRMW kSub = AtomicSub"
| "AtomicRMW kAnd = AtomicAnd"
| "AtomicRMW kOr = AtomicOr"
| "AtomicRMW kXor = AtomicXor"
| "AtomicRMW kExchange = AtomicExchange"




section \<open>States for the examples\<close>

text \<open>
  An assembler at the start of a function: nothing emitted, the peak spill offset at the
  fixed part of the frame (\<open>StaticStackFrameSize\<close>, four words), two scratch registers,
  six allocatable registers, every call encoded in four bytes except that binding a label
  emits nothing and a pc-relative jump takes two instructions. And a machine with all
  registers and memory zero.
\<close>

definition example_size :: "instr \<Rightarrow> int" where
  "example_size i =
     (case i of
        Ci (bind_label l) \<Rightarrow> 0
      | Ci (GenPCRelativeJump r imm) \<Rightarrow> 8
      | _ \<Rightarrow> 4)"

definition new_assembler :: LiftoffAssembler where
  "new_assembler =
     \<lparr>buffer = [], encoded_size = example_size, max_used_spill_offset = 16,
      scratch_register_list = [t3, t5], cache_gp_regs = [a0, a1, a2, a3, a4, a5],
      bailout_reason = None, safepoints = [], patched = [],
      FLAG_stack_size = 984, FLAG_debug_code = False, kRealStackLimitAddressOffset = 41\<rparr>"

definition zero_machine :: machine where
  "zero_machine =
     \<lparr>xregs = (\<lambda>r. 0), fregs = (\<lambda>r. 0), vregs = (\<lambda>r. 0), mem = (\<lambda>a. 0),
      vsew = E8, reservation = None, sc_failures = 0\<rparr>"




definition cmpxchg_aliased_code :: "instr list" where
  "cmpxchg_aliased_code =
     [Ai (Add t3 a2 (OpReg a3)), Ci (bind_label ''retry''),
      Ci (lr_w True True a0 t3), Ci (Branch ''done'' ne a1 (OpReg a1)),
      Ci (sc_w True True t5 a4 t3), Ci (bnez t5 ''retry''),
      Ci (bind_label ''done''), Ai (mv a1 a0)]"



section \<open>Helper facts\<close>

lemma get_x_set_x:
  "get_x (set_x r v s) r' = (if r' = zero_reg then 0 else if r' = r then v else get_x s r')"
  by (simp add: get_x_def set_x_def)

lemma get_x_zero_reg [simp]: "get_x s zero_reg = 0"
  by (simp add: get_x_def)

lemma set_x_fields [simp]:
  "mem (set_x r v s) = mem s" "fregs (set_x r v s) = fregs s" "vregs (set_x r v s) = vregs s"
  "vsew (set_x r v s) = vsew s" "reservation (set_x r v s) = reservation s"
  "sc_failures (set_x r v s) = sc_failures s"
  by (simp_all add: set_x_def)

lemma get_x_update_other [simp]:
  "get_x (s\<lparr>mem := m\<rparr>) r = get_x s r"
  "get_x (s\<lparr>fregs := f\<rparr>) r = get_x s r"
  "get_x (s\<lparr>vregs := vr\<rparr>) r = get_x s r"
  "get_x (s\<lparr>vsew := w\<rparr>) r = get_x s r"
  "get_x (s\<lparr>reservation := res\<rparr>) r = get_x s r"
  "get_x (s\<lparr>sc_failures := k\<rparr>) r = get_x s r"
  by (simp_all add: get_x_def)

lemma buffer_emits: "buffer (emits is a) = buffer a @ is"
  by (simp add: emits_def)

lemma buffer_emit: "buffer (emit i a) = buffer a @ [i]"
  by (simp add: emit_def)

lemma get_x_zero_machine [simp]: "get_x zero_machine r = 0"
  by (simp add: get_x_def zero_machine_def)

lemma zero_machine_fields [simp]:
  "mem zero_machine = (\<lambda>a. 0)" "sc_failures zero_machine = 0" "reservation zero_machine = None"
  "vregs zero_machine = (\<lambda>r. 0)" "fregs zero_machine = (\<lambda>r. 0)" "vsew zero_machine = E8"
  by (simp_all add: zero_machine_def)

lemma reg_distinct [simp]:
  "zero_reg \<noteq> ra" "zero_reg \<noteq> sp" "zero_reg \<noteq> fp" "zero_reg \<noteq> a0"
  "zero_reg \<noteq> a1" "zero_reg \<noteq> a2" "zero_reg \<noteq> a3" "zero_reg \<noteq> a4"
  "zero_reg \<noteq> a5" "zero_reg \<noteq> t3" "zero_reg \<noteq> t5"
  "zero_reg \<noteq> kScratchReg" "zero_reg \<noteq> kScratchReg2" "ra \<noteq> zero_reg"
  "ra \<noteq> sp" "ra \<noteq> fp" "ra \<noteq> a0" "ra \<noteq> a1" "ra \<noteq> a2"
  "ra \<noteq> a3" "ra \<noteq> a4" "ra \<noteq> a5" "ra \<noteq> t3" "ra \<noteq> t5"
  "ra \<noteq> kScratchReg" "ra \<noteq> kScratchReg2" "sp \<noteq> zero_reg" "sp \<noteq> ra"
  "sp \<noteq> fp" "sp \<noteq> a0" "sp \<noteq> a1" "sp \<noteq> a2" "sp \<noteq> a3"
  "sp \<noteq> a4" "sp \<noteq> a5" "sp \<noteq> t3" "sp \<noteq> t5"
  "sp \<noteq> kScratchReg" "sp \<noteq> kScratchReg2" "fp \<noteq> zero_reg" "fp \<noteq> ra"
  "fp \<noteq> sp" "fp \<noteq> a0" "fp \<noteq> a1" "fp \<noteq> a2" "fp \<noteq> a3"
  "fp \<noteq> a4" "fp \<noteq> a5" "fp \<noteq> t3" "fp \<noteq> t5"
  "fp \<noteq> kScratchReg" "fp \<noteq> kScratchReg2" "a0 \<noteq> zero_reg" "a0 \<noteq> ra"
  "a0 \<noteq> sp" "a0 \<noteq> fp" "a0 \<noteq> a1" "a0 \<noteq> a2" "a0 \<noteq> a3"
  "a0 \<noteq> a4" "a0 \<noteq> a5" "a0 \<noteq> t3" "a0 \<noteq> t5"
  "a0 \<noteq> kScratchReg" "a0 \<noteq> kScratchReg2" "a1 \<noteq> zero_reg" "a1 \<noteq> ra"
  "a1 \<noteq> sp" "a1 \<noteq> fp" "a1 \<noteq> a0" "a1 \<noteq> a2" "a1 \<noteq> a3"
  "a1 \<noteq> a4" "a1 \<noteq> a5" "a1 \<noteq> t3" "a1 \<noteq> t5"
  "a1 \<noteq> kScratchReg" "a1 \<noteq> kScratchReg2" "a2 \<noteq> zero_reg" "a2 \<noteq> ra"
  "a2 \<noteq> sp" "a2 \<noteq> fp" "a2 \<noteq> a0" "a2 \<noteq> a1" "a2 \<noteq> a3"
  "a2 \<noteq> a4" "a2 \<noteq> a5" "a2 \<noteq> t3" "a2 \<noteq> t5"
  "a2 \<noteq> kScratchReg" "a2 \<noteq> kScratchReg2" "a3 \<noteq> zero_reg" "a3 \<noteq> ra"
  "a3 \<noteq> sp" "a3 \<noteq> fp" "a3 \<noteq> a0" "a3 \<noteq> a1" "a3 \<noteq> a2"
  "a3 \<noteq> a4" "a3 \<noteq> a5" "a3 \<noteq> t3" "a3 \<noteq> t5"
  "a3 \<noteq> kScratchReg" "a3 \<noteq> kScratchReg2" "a4 \<noteq> zero_reg" "a4 \<noteq> ra"
  "a4 \<noteq> sp" "a4 \<noteq> fp" "a4 \<noteq> a0" "a4 \<noteq> a1" "a4 \<noteq> a2"
  "a4 \<noteq> a3" "a4 \<noteq> a5" "a4 \<noteq> t3" "a4 \<noteq> t5"
  "a4 \<noteq> kScratchReg" "a4 \<noteq> kScratchReg2" "a5 \<noteq> zero_reg" "a5 \<noteq> ra"
  "a5 \<noteq> sp" "a5 \<noteq> fp" "a5 \<noteq> a0" "a5 \<noteq> a1" "a5 \<noteq> a2"
  "a5 \<noteq> a3" "a5 \<noteq> a4" "a5 \<noteq> t3" "a5 \<noteq> t5"
  "a5 \<noteq> kScratchReg" "a5 \<noteq> kScratchReg2" "t3 \<noteq> zero_reg" "t3 \<noteq> ra"
  "t3 \<noteq> sp" "t3 \<noteq> fp" "t3 \<noteq> a0" "t3 \<noteq> a1" "t3 \<noteq> a2"
  "t3 \<noteq> a3" "t3 \<noteq> a4" "t3 \<noteq> a5" "t3 \<noteq> t5"
  "t3 \<noteq> kScratchReg" "t3 \<noteq> kScratchReg2" "t5 \<noteq> zero_reg" "t5 \<noteq> ra"
  "t5 \<noteq> sp" "t5 \<noteq> fp" "t5 \<noteq> a0" "t5 \<noteq> a1" "t5 \<noteq> a2"
  "t5 \<noteq> a3" "t5 \<noteq> a4" "t5 \<noteq> a5" "t5 \<noteq> t3"
  "t5 \<noteq> kScratchReg" "t5 \<noteq> kScratchReg2" "kScratchReg \<noteq> zero_reg"
  "kScratchReg \<noteq> ra" "kScratchReg \<noteq> sp" "kScratchReg \<noteq> fp"
  "kScratchReg \<noteq> a0" "kScratchReg \<noteq> a1" "kScratchReg \<noteq> a2"
  "kScratchReg \<noteq> a3" "kScratchReg \<noteq> a4" "kScratchReg \<noteq> a5"
  "kScratchReg \<noteq> t3" "kScratchReg \<noteq> t5" "kScratchReg \<noteq> kScratchReg2"
  "kScratchReg2 \<noteq> zero_reg" "kScratchReg2 \<noteq> ra" "kScratchReg2 \<noteq> sp"
  "kScratchReg2 \<noteq> fp" "kScratchReg2 \<noteq> a0" "kScratchReg2 \<noteq> a1"
  "kScratchReg2 \<noteq> a2" "kScratchReg2 \<noteq> a3" "kScratchReg2 \<noteq> a4"
  "kScratchReg2 \<noteq> a5" "kScratchReg2 \<noteq> t3" "kScratchReg2 \<noteq> t5"
  "kScratchReg2 \<noteq> kScratchReg"
  by (simp_all add: reg_defs)

lemma no_reg_distinct [simp]:
  "zero_reg \<noteq> no_reg" "sp \<noteq> no_reg" "fp \<noteq> no_reg" "a0 \<noteq> no_reg" "a1 \<noteq> no_reg" "a2 \<noteq> no_reg"
  "a3 \<noteq> no_reg" "a4 \<noteq> no_reg" "a5 \<noteq> no_reg" "t3 \<noteq> no_reg" "t5 \<noteq> no_reg"
  by (simp_all add: reg_defs)

lemma load32_store32_same: "load32 (store32 m a v) a = v"
proof -
  have d: "a + 1 \<noteq> a" "a + 2 \<noteq> a" "a + 3 \<noteq> a" "a + 2 \<noteq> a + 1" "a + 3 \<noteq> a + 1" "a + 3 \<noteq> a + 2"
    by simp_all
  have "ucast (ucast v :: 8 word) OR push_bit 8 (ucast (ucast (drop_bit 8 v) :: 8 word))
        OR push_bit 16 (ucast (ucast (drop_bit 16 v) :: 8 word))
        OR push_bit 24 (ucast (ucast (drop_bit 24 v) :: 8 word)) = v"
  proof (rule bit_eqI)
    fix n
    assume "possible_bit TYPE(32 word) n"
    then have "n < 32" by simp
    then consider "n < 8" | "8 \<le> n \<and> n < 16" | "16 \<le> n \<and> n < 24" | "24 \<le> n \<and> n < 32"
      by linarith
    then show "bit (ucast (ucast v :: 8 word) OR push_bit 8 (ucast (ucast (drop_bit 8 v) :: 8 word))
        OR push_bit 16 (ucast (ucast (drop_bit 16 v) :: 8 word))
        OR push_bit 24 (ucast (ucast (drop_bit 24 v) :: 8 word)) :: 32 word) n = bit v n"
      by cases (auto simp: bit_simps)
  qed
  then show ?thesis
    using d by (simp add: load32_def store32_def)
qed

lemma load32_zero [simp]: "load32 (\<lambda>a. 0) x = 0"
  by (simp add: load32_def)

lemma load32_store32_next: "b = a + 4 \<Longrightarrow> load32 (store32 m a v) b = load32 m b"
  by (simp add: load32_def store32_def)


lemma word_of_int_int32 [simp]: "(word_of_int (int32 x) :: 32 word) = word_of_int x"
  by (simp add: int32_def)


lemma run_numeral: "run (numeral k) prog c = run (pred_numeral k) prog (step prog c)"
  by (simp add: numeral_eq_Suc)

lemma run_add: "run (m + n) prog c = run n prog (run m prog c)"
  by (induction m arbitrary: c) simp_all

lemma run_Exited [simp]: "run n prog (Exited k s) = Exited k s"
  by (induction n) simp_all

lemmas exec_simps = run_numeral goto_def get_x_set_x ea_def emits_def emit_def







lemma bit_vec_of:
  "0 < w \<Longrightarrow> bit (vec_of w f n) k \<longleftrightarrow> k < n * w \<and> k < 128 \<and> bit (f (k div w)) (k mod w)"
proof (induction n)
  case 0
  then show ?case by simp
next
  case (Suc n)
  show ?case
  proof (cases "k < n * w")
    case True
    with Suc show ?thesis
      by (auto simp: bit_simps dest: bit_imp_le_length)
  next
    case False
    then have ge: "n * w \<le> k" by simp
    show ?thesis
    proof (cases "k < n * w + w")
      case True
      with ge Suc.prems have "k div w = n"
        by (intro div_nat_eqI) (simp_all add: ac_simps)
      moreover from this have "k mod w = k - n * w"
        by (simp add: modulo_nat_def)
      moreover from True ge have "k - n * w < w" by arith
      ultimately show ?thesis using Suc True ge
        by (auto simp: bit_simps dest: bit_imp_le_length)
    next
      case False
      with Suc ge show ?thesis
        by (auto simp: bit_simps)
    qed
  qed
qed

lemma lane_vec_of:
  assumes "0 < w" "i < n" "n * w \<le> 128"
  shows "lane w (vec_of w f n) i = take_bit w (f i)"
proof (rule bit_eqI)
  fix k
  assume "possible_bit TYPE(128 word) k"
  have *: "k < w \<Longrightarrow> i * w + k < n * w"
  proof -
    assume "k < w"
    then have "i * w + k < (Suc i) * w" by simp
    also have "\<dots> \<le> n * w" using assms(2) by (simp add: Suc_leI mult_le_mono1 del: mult_Suc)
    finally show ?thesis .
  qed
  show "bit (lane w (vec_of w f n) i) k = bit (take_bit w (f i)) k"
    using assms * by (auto simp: lane_def bit_simps bit_vec_of ac_simps)
qed

lemma GetUnusedRegister_Inr:
  "GetUnusedRegister candidates pinned = Inr x \<Longrightarrow> x \<in> set candidates \<and> x \<notin> set pinned"
proof -
  assume a: "GetUnusedRegister candidates pinned = Inr x"
  then obtain rest where "filter (\<lambda>r. r \<notin> set pinned) candidates = x # rest"
    by (auto simp: GetUnusedRegister_def split: list.splits)
  then have "x \<in> set (filter (\<lambda>r. r \<notin> set pinned) candidates)"
    by simp
  then show ?thesis by simp
qed

lemma find_label_append:
  "Ci (bind_label l) \<notin> set pre \<Longrightarrow>
   find_label l (pre @ xs) = (case find_label l xs of None \<Rightarrow> None | Some k \<Rightarrow> Some (length pre + k))"
  by (induction pre) (auto split: option.splits)

lemma exec_binop_compute:
  "exec_instr prog pc (binop_compute op temp result_reg v) s
     = Running (Suc pc) (set_x temp (binop_val op (get_x s result_reg) (get_x s v)) s)"
  by (cases op) simp_all

lemma retry_round_fail:
  assumes nl: "Ci (bind_label ''retry'') \<notin> set pre"
    and d: "result_reg \<noteq> temp" "result_reg \<noteq> store_result" "result_reg \<noteq> actual_addr"
           "temp \<noteq> store_result" "temp \<noteq> actual_addr" "store_result \<noteq> actual_addr"
           "result_reg \<noteq> zero_reg" "temp \<noteq> zero_reg" "store_result \<noteq> zero_reg" "actual_addr \<noteq> zero_reg"
           "v \<noteq> result_reg" "v \<noteq> temp" "v \<noteq> store_result"
    and f: "sc_failures s \<noteq> 0"
  shows "run 5 (pre @ retry_loop op result_reg temp store_result actual_addr v @ post) (Running (length pre) s)
     = Running (length pre)
         (set_x store_result 1
            ((set_x temp (binop_val op (load32 (mem s) (get_x s actual_addr)) (get_x s v))
               (set_x result_reg (load32 (mem s) (get_x s actual_addr)) (s\<lparr>reservation := Some (get_x s actual_addr)\<rparr>)))
              \<lparr>reservation := None, sc_failures := sc_failures s - 1\<rparr>))"
  using nl d f
  by (simp add: retry_loop_def exec_simps exec_binop_compute nth_append find_label_append)


lemma retry_round_ok:
  assumes nl: "Ci (bind_label ''retry'') \<notin> set pre"
    and d: "result_reg \<noteq> temp" "result_reg \<noteq> store_result" "result_reg \<noteq> actual_addr"
           "temp \<noteq> store_result" "temp \<noteq> actual_addr" "store_result \<noteq> actual_addr"
           "result_reg \<noteq> zero_reg" "temp \<noteq> zero_reg" "store_result \<noteq> zero_reg" "actual_addr \<noteq> zero_reg"
           "v \<noteq> result_reg" "v \<noteq> temp" "v \<noteq> store_result"
    and f: "sc_failures s = 0"
  shows "run 5 (pre @ retry_loop op result_reg temp store_result actual_addr v @ post) (Running (length pre) s)
     = Running (length pre + 5)
         (set_x store_result 0
            ((set_x temp (binop_val op (load32 (mem s) (get_x s actual_addr)) (get_x s v))
               (set_x result_reg (load32 (mem s) (get_x s actual_addr)) (s\<lparr>reservation := Some (get_x s actual_addr)\<rparr>)))
              \<lparr>mem := store32 (mem s) (get_x s actual_addr)
                        (binop_val op (load32 (mem s) (get_x s actual_addr)) (get_x s v)),
                reservation := None\<rparr>))"
  using nl d f
  by (simp add: retry_loop_def exec_simps exec_binop_compute nth_append find_label_append)

lemma retry_loop_run:
  assumes nl: "Ci (bind_label ''retry'') \<notin> set pre"
    and d: "result_reg \<noteq> temp" "result_reg \<noteq> store_result" "result_reg \<noteq> actual_addr"
           "temp \<noteq> store_result" "temp \<noteq> actual_addr" "store_result \<noteq> actual_addr"
           "result_reg \<noteq> zero_reg" "temp \<noteq> zero_reg" "store_result \<noteq> zero_reg" "actual_addr \<noteq> zero_reg"
           "v \<noteq> result_reg" "v \<noteq> temp" "v \<noteq> store_result"
  shows "sc_failures s = k \<Longrightarrow>
     \<exists>s'. run (5 * k + 5) (pre @ retry_loop op result_reg temp store_result actual_addr v @ post)
               (Running (length pre) s) = Running (length pre + 5) s'
          \<and> mem s' = store32 (mem s) (get_x s actual_addr)
                        (binop_val op (load32 (mem s) (get_x s actual_addr)) (get_x s v))
          \<and> get_x s' result_reg = load32 (mem s) (get_x s actual_addr)
          \<and> sc_failures s' = 0
          \<and> (\<forall>x. x \<noteq> result_reg \<longrightarrow> x \<noteq> temp \<longrightarrow> x \<noteq> store_result \<longrightarrow> get_x s' x = get_x s x)"
proof (induction k arbitrary: s)
  case 0
  then show ?case
    using d by (simp add: retry_round_ok [OF nl d] get_x_set_x)
next
  case (Suc k)
  let ?code = "pre @ retry_loop op result_reg temp store_result actual_addr v @ post"
  let ?s1 = "set_x store_result 1
            ((set_x temp (binop_val op (load32 (mem s) (get_x s actual_addr)) (get_x s v))
               (set_x result_reg (load32 (mem s) (get_x s actual_addr)) (s\<lparr>reservation := Some (get_x s actual_addr)\<rparr>)))
              \<lparr>reservation := None, sc_failures := sc_failures s - 1\<rparr>)"
  from Suc.prems have f: "sc_failures s \<noteq> 0" by simp
  have r5: "run 5 ?code (Running (length pre) s) = Running (length pre) ?s1"
    by (rule retry_round_fail [OF nl d f])
  have k: "sc_failures ?s1 = k"
    using Suc.prems by simp
  have same: "mem ?s1 = mem s" "get_x ?s1 actual_addr = get_x s actual_addr" "get_x ?s1 v = get_x s v"
    using d by (simp_all add: get_x_set_x)
  have others: "x \<noteq> result_reg \<Longrightarrow> x \<noteq> temp \<Longrightarrow> x \<noteq> store_result \<Longrightarrow> get_x ?s1 x = get_x s x" for x
    by (simp add: get_x_set_x)
  from Suc.IH [OF k] obtain s' where s': 
    "run (5 * k + 5) ?code (Running (length pre) ?s1) = Running (length pre + 5) s'"
    "mem s' = store32 (mem ?s1) (get_x ?s1 actual_addr)
                        (binop_val op (load32 (mem ?s1) (get_x ?s1 actual_addr)) (get_x ?s1 v))"
    "get_x s' result_reg = load32 (mem ?s1) (get_x ?s1 actual_addr)"
    "sc_failures s' = 0"
    "\<forall>x. x \<noteq> result_reg \<longrightarrow> x \<noteq> temp \<longrightarrow> x \<noteq> store_result \<longrightarrow> get_x s' x = get_x ?s1 x"
    by blast
  have "5 * Suc k + 5 = 5 + (5 * k + 5)" by simp
  then have "run (5 * Suc k + 5) ?code (Running (length pre) s)
      = run (5 * k + 5) ?code (run 5 ?code (Running (length pre) s))"
    by (simp only: run_add)
  with r5 s'(1) have "run (5 * Suc k + 5) ?code (Running (length pre) s) = Running (length pre + 5) s'"
    by simp
  moreover from s'(2,3) same have "mem s' = store32 (mem s) (get_x s actual_addr)
                        (binop_val op (load32 (mem s) (get_x s actual_addr)) (get_x s v))"
    "get_x s' result_reg = load32 (mem s) (get_x s actual_addr)"
    by simp_all
  moreover from s'(5) others have "\<forall>x. x \<noteq> result_reg \<longrightarrow> x \<noteq> temp \<longrightarrow> x \<noteq> store_result \<longrightarrow> get_x s' x = get_x s x"
    by simp
  ultimately show ?case using s'(4) by blast
qed


lemma set_x_set_x [simp]: "set_x r v (set_x r w s) = set_x r v s"
  by (simp add: set_x_def)

lemma addr_code_run:
  assumes "actual_addr \<noteq> zero_reg"
  shows "run (length (addr_code d ofs i actual_addr)) (addr_code d ofs i actual_addr @ rest) (Running 0 s)
     = Running (length (addr_code d ofs i actual_addr))
         (set_x actual_addr (get_x s d + get_x s ofs + word_of_int i) s)"
  using assms by (cases "i = 0") (simp_all add: addr_code_def exec_simps nth_append)

lemma fixup_run:
  assumes "r \<noteq> zero_reg"
  shows "run (length (fixup r result_reg) + 1) (pre @ fixup r result_reg) (Running (length pre) s)
     = Exited FellThrough (if result_reg \<noteq> r then set_x r (get_x s result_reg) s else s)"
  using assms by (cases "result_reg = r") (simp_all add: fixup_def exec_simps nth_append)

lemma addr_code_no_label: "Ci (bind_label l) \<notin> set (addr_code d ofs i actual_addr)"
  by (simp add: addr_code_def)

lemma word_rmw_run:
  fixes dst_addr offset_reg actual_addr result_reg temp store_result v r :: Register
    and offset_imm :: int and op :: Binop and s :: machine
  assumes d: "result_reg \<noteq> temp" "result_reg \<noteq> store_result" "result_reg \<noteq> actual_addr"
           "temp \<noteq> store_result" "temp \<noteq> actual_addr" "store_result \<noteq> actual_addr"
           "result_reg \<noteq> zero_reg" "temp \<noteq> zero_reg" "store_result \<noteq> zero_reg" "actual_addr \<noteq> zero_reg"
           "v \<noteq> result_reg" "v \<noteq> temp" "v \<noteq> store_result"
    and e: "v \<noteq> actual_addr" "r \<noteq> zero_reg"
  defines "code \<equiv> addr_code dst_addr offset_reg offset_imm actual_addr
                   @ retry_loop op result_reg temp store_result actual_addr v @ fixup r result_reg"
    and "A \<equiv> get_x s dst_addr + get_x s offset_reg + word_of_int offset_imm"
  shows "\<exists>s'. run (length code + 5 * sc_failures s + 1) code (Running 0 s) = Exited FellThrough s'
          \<and> mem s' = store32 (mem s) A (binop_val op (load32 (mem s) A) (get_x s v))
          \<and> get_x s' r = load32 (mem s) A
          \<and> sc_failures s' = 0"
proof -
  let ?pre = "addr_code dst_addr offset_reg offset_imm actual_addr"
  let ?loop = "retry_loop op result_reg temp store_result actual_addr v"
  let ?post = "fixup r result_reg"
  let ?s0 = "set_x actual_addr A s"
  have len: "length code + 5 * sc_failures s + 1
             = length ?pre + ((5 * sc_failures s + 5) + (length ?post + 1))"
    by (simp add: code_def retry_loop_def)
  have 1: "run (length ?pre) code (Running 0 s) = Running (length ?pre) ?s0"
    unfolding code_def A_def by (rule addr_code_run [OF d(10)])
  have s0: "sc_failures ?s0 = sc_failures s" "mem ?s0 = mem s" "get_x ?s0 actual_addr = A"
    "get_x ?s0 v = get_x s v"
    using d e by (simp_all add: get_x_set_x)
  from retry_loop_run [OF addr_code_no_label d s0(1), where op = op and post = "?post"]
  obtain s1 where s1: "run (5 * sc_failures s + 5) code (Running (length ?pre) ?s0)
                         = Running (length ?pre + 5) s1"
    "mem s1 = store32 (mem ?s0) (get_x ?s0 actual_addr)
                (binop_val op (load32 (mem ?s0) (get_x ?s0 actual_addr)) (get_x ?s0 v))"
    "get_x s1 result_reg = load32 (mem ?s0) (get_x ?s0 actual_addr)"
    "sc_failures s1 = 0"
    unfolding code_def by blast
  have 3: "run (length ?post + 1) code (Running (length ?pre + 5) s1)
           = Exited FellThrough (if result_reg \<noteq> r then set_x r (get_x s1 result_reg) s1 else s1)"
  proof -
    have code_eq: "code = (?pre @ ?loop) @ ?post" by (simp add: code_def)
    have lp: "length ?pre + 5 = length (?pre @ ?loop)" by (simp add: retry_loop_def)
    show ?thesis
      unfolding code_eq lp by (rule fixup_run [OF e(2)])
  qed
  let ?s2 = "if result_reg \<noteq> r then set_x r (get_x s1 result_reg) s1 else s1"
  have "run (length code + 5 * sc_failures s + 1) code (Running 0 s)
        = run ((5 * sc_failures s + 5) + (length ?post + 1)) code (run (length ?pre) code (Running 0 s))"
    unfolding len by (rule run_add)
  also have "\<dots> = run (length ?post + 1) code
                      (run (5 * sc_failures s + 5) code (run (length ?pre) code (Running 0 s)))"
    by (rule run_add)
  also have "\<dots> = Exited FellThrough ?s2"
    by (simp only: 1 s1(1) 3)
  finally have "run (length code + 5 * sc_failures s + 1) code (Running 0 s) = Exited FellThrough ?s2" .
  moreover have "mem ?s2 = store32 (mem s) A (binop_val op (load32 (mem s) A) (get_x s v))"
    using s1(2) by (simp add: s0)
  moreover have "get_x s1 result_reg = load32 (mem s) A"
    using s1(3) by (simp only: s0)
  then have "get_x ?s2 r = load32 (mem s) A"
    using e(2) by (auto simp: get_x_set_x)
  moreover have "sc_failures ?s2 = 0"
    using s1(4) by simp
  ultimately show ?thesis by blast
qed


lemma fenced_round:
  assumes d: "result_reg \<noteq> temp" "result_reg \<noteq> store_result" "result_reg \<noteq> actual_addr"
           "temp \<noteq> store_result" "temp \<noteq> actual_addr" "store_result \<noteq> actual_addr"
           "result_reg \<noteq> zero_reg" "temp \<noteq> zero_reg" "store_result \<noteq> zero_reg" "actual_addr \<noteq> zero_reg"
           "v \<noteq> result_reg" "v \<noteq> temp" "v \<noteq> store_result"
  shows "run 9 (pre @ fenced_access byte op result_reg temp store_result actual_addr v @ post)
           (Running (length pre) s)
     = Running (length pre + 9)
         (set_x store_result 0
            ((set_x temp (binop_val op (if byte then load8 (mem s) (get_x s actual_addr)
                                        else load16 (mem s) (get_x s actual_addr)) (get_x s v))
               (set_x result_reg (if byte then load8 (mem s) (get_x s actual_addr)
                                  else load16 (mem s) (get_x s actual_addr)) s))
             \<lparr>mem := (if byte
                       then store8 (mem s) (get_x s actual_addr)
                              (binop_val op (load8 (mem s) (get_x s actual_addr)) (get_x s v))
                       else store16 (mem s) (get_x s actual_addr)
                              (binop_val op (load16 (mem s) (get_x s actual_addr)) (get_x s v)))\<rparr>))"
  using d
  by (cases byte) (simp_all add: fenced_access_def exec_simps exec_binop_compute nth_append)

lemma fenced_rmw_run:
  fixes dst_addr offset_reg actual_addr result_reg temp store_result v r :: Register
    and offset_imm :: int and op :: Binop and s :: machine and byte :: bool
  assumes d: "result_reg \<noteq> temp" "result_reg \<noteq> store_result" "result_reg \<noteq> actual_addr"
           "temp \<noteq> store_result" "temp \<noteq> actual_addr" "store_result \<noteq> actual_addr"
           "result_reg \<noteq> zero_reg" "temp \<noteq> zero_reg" "store_result \<noteq> zero_reg" "actual_addr \<noteq> zero_reg"
           "v \<noteq> result_reg" "v \<noteq> temp" "v \<noteq> store_result"
    and e: "v \<noteq> actual_addr" "r \<noteq> zero_reg"
  defines "code \<equiv> addr_code dst_addr offset_reg offset_imm actual_addr
                   @ fenced_access byte op result_reg temp store_result actual_addr v @ fixup r result_reg"
    and "A \<equiv> get_x s dst_addr + get_x s offset_reg + word_of_int offset_imm"
  shows "\<exists>s'. run (length code + 1) code (Running 0 s) = Exited FellThrough s'
          \<and> mem s' = (if byte then store8 (mem s) A (binop_val op (load8 (mem s) A) (get_x s v))
                       else store16 (mem s) A (binop_val op (load16 (mem s) A) (get_x s v)))
          \<and> get_x s' r = (if byte then load8 (mem s) A else load16 (mem s) A)
          \<and> sc_failures s' = sc_failures s"
proof -
  let ?pre = "addr_code dst_addr offset_reg offset_imm actual_addr"
  let ?mid = "fenced_access byte op result_reg temp store_result actual_addr v"
  let ?post = "fixup r result_reg"
  let ?s0 = "set_x actual_addr A s"
  let ?old = "if byte then load8 (mem s) A else load16 (mem s) A"
  let ?s1 = "set_x store_result 0
            ((set_x temp (binop_val op ?old (get_x s v)) (set_x result_reg ?old ?s0))
             \<lparr>mem := (if byte then store8 (mem s) A (binop_val op (load8 (mem s) A) (get_x s v))
                       else store16 (mem s) A (binop_val op (load16 (mem s) A) (get_x s v)))\<rparr>)"
  have len: "length code + 1 = length ?pre + (9 + (length ?post + 1))"
    by (simp add: code_def fenced_access_def)
  have 1: "run (length ?pre) code (Running 0 s) = Running (length ?pre) ?s0"
    unfolding code_def A_def by (rule addr_code_run [OF d(10)])
  have s0: "mem ?s0 = mem s" "get_x ?s0 actual_addr = A" "get_x ?s0 v = get_x s v"
    using d e by (simp_all add: get_x_set_x)
  have 2: "run 9 code (Running (length ?pre) ?s0) = Running (length ?pre + 9) ?s1"
    unfolding code_def using fenced_round [OF d, of ?pre byte op ?post ?s0]
    by (simp only: s0)
  have 3: "run (length ?post + 1) code (Running (length ?pre + 9) ?s1)
           = Exited FellThrough (if result_reg \<noteq> r then set_x r (get_x ?s1 result_reg) ?s1 else ?s1)"
  proof -
    have code_eq: "code = (?pre @ ?mid) @ ?post" by (simp add: code_def)
    have lp: "length ?pre + 9 = length (?pre @ ?mid)" by (simp add: fenced_access_def)
    show ?thesis
      unfolding code_eq lp by (rule fixup_run [OF e(2)])
  qed
  let ?s2 = "if result_reg \<noteq> r then set_x r (get_x ?s1 result_reg) ?s1 else ?s1"
  have "run (length code + 1) code (Running 0 s)
        = run (9 + (length ?post + 1)) code (run (length ?pre) code (Running 0 s))"
    unfolding len by (rule run_add)
  also have "\<dots> = run (length ?post + 1) code (run 9 code (run (length ?pre) code (Running 0 s)))"
    by (rule run_add)
  also have "\<dots> = Exited FellThrough ?s2"
    by (simp only: 1 2 3)
  finally have r: "run (length code + 1) code (Running 0 s) = Exited FellThrough ?s2" .
  have m: "mem ?s2 = (if byte then store8 (mem s) A (binop_val op (load8 (mem s) A) (get_x s v))
                       else store16 (mem s) A (binop_val op (load16 (mem s) A) (get_x s v)))"
    by simp
  have g: "get_x ?s2 r = ?old"
    using d e(2) by (auto simp: get_x_set_x)
  have f: "sc_failures ?s2 = sc_failures s"
    by simp
  from r m g f show ?thesis by blast
qed

lemma AtomicBinop_emits:
  assumes "scratch_register_list a = actual_addr # temp # rest"
    and "GetUnusedRegister (cache_gp_regs a) [dst_addr, offset_reg, v, r] = Inr store_result"
    and "(if r = v \<or> r = dst_addr \<or> r = offset_reg
          then GetUnusedRegister (cache_gp_regs a) [store_result, dst_addr, offset_reg, v, r]
          else Inr r) = Inr result_reg"
    and "dst_addr \<noteq> no_reg" "offset_reg \<noteq> no_reg"
    and "type \<in> {kI32Store, kI64Store32, kI64Store, kI32Store8, kI64Store8, kI32Store16, kI64Store16}"
  shows "AtomicBinop dst_addr offset_reg offset_imm (GpReg v) (GpReg r) type op a
     = Inr (emits (addr_code dst_addr offset_reg offset_imm actual_addr
                   @ rmw_body type op result_reg temp store_result actual_addr v
                   @ fixup r result_reg) a)"
proof -
  have ac: "CalculateActualAddress dst_addr offset_reg offset_imm actual_addr
            = Inr (addr_code dst_addr offset_reg offset_imm actual_addr)"
    using assms(4,5) by (simp add: CalculateActualAddress_def addr_code_def)
  have body: "\<exists>lc sc. binop_load type result_reg actual_addr = Inr lc
            \<and> binop_store type store_result actual_addr temp = Inr sc
            \<and> [Ci (bind_label ''retry'')] @ lc @ [binop_compute op temp result_reg v] @ sc
                @ [Ci (bnez store_result ''retry'')]
              = rmw_body type op result_reg temp store_result actual_addr v"
    using assms(6)
    by (auto simp: rmw_body_def retry_loop_def retry_loop_d_def fenced_access_def)
  then obtain lc sc where b: "binop_load type result_reg actual_addr = Inr lc"
    "binop_store type store_result actual_addr temp = Inr sc"
    "[Ci (bind_label ''retry'')] @ lc @ [binop_compute op temp result_reg v] @ sc
                @ [Ci (bnez store_result ''retry'')]
              = rmw_body type op result_reg temp store_result actual_addr v"
    by blast
  have "AtomicBinop dst_addr offset_reg offset_imm (GpReg v) (GpReg r) type op a
     = Inr (emits (addr_code dst_addr offset_reg offset_imm actual_addr
                   @ ([Ci (bind_label ''retry'')] @ lc @ [binop_compute op temp result_reg v] @ sc
                      @ [Ci (bnez store_result ''retry'')])
                   @ fixup r result_reg) a)"
    using assms(1,2,3) ac b(1,2)
    by (simp add: AtomicBinop_def Let_def bind_err_def dcheck_def Acquire_def fixup_def)
  then show ?thesis
    by (simp only: b(3))
qed






lemma v0_scratch [simp]: "v0 \<noteq> kSimd128ScratchReg" "kSimd128ScratchReg \<noteq> v0"
  by (simp_all add: v0_def kSimd128ScratchReg_def)


lemma lane_map_lanes:
  "w \<in> {8, 16, 32, 64} \<Longrightarrow> i < 128 div w \<Longrightarrow> lane w (map_lanes w f) i = take_bit w (f i)"
  unfolding map_lanes_def by (rule lane_vec_of) auto


lemma take_bit_lane [simp]: "take_bit w (lane w v i) = lane w v i"
  by (simp add: lane_def)









text \<open>
  Lane access with 8-, 16- and 32-bit lanes: the code of \<open>replace_lane\<close> followed by
  the code of \<open>extract_lane\<close> (the sign-extending one for the narrow lanes) leaves the
  scalar, cut to the lane width, in the destination, and the other lanes as they were.
\<close>

lemma bit_map_lanes:
  "w \<in> {8, 16, 32, 64} \<Longrightarrow> bit (map_lanes w f) k \<longleftrightarrow> k < 128 \<and> bit (take_bit w (f (k div w))) (k mod w)"
  unfolding map_lanes_def
  by (auto simp: bit_vec_of bit_simps dest: bit_imp_le_length)


lemma bit_lane_mask:
  assumes "idx < 32" "j < 32"
  shows "bit (scalar_elem 32 (2 ^ idx)) j \<longleftrightarrow> j = idx"
  using assms by (auto simp: scalar_elem_def bit_simps)

lemma ucast_scalar_elem: "(ucast (take_bit 32 (scalar_elem 32 x)) :: 32 word) = x"
  by (rule bit_eqI) (auto simp: scalar_elem_def bit_simps)

lemma i32x4_replace_run:
  assumes "x \<noteq> kScratchReg" "v \<noteq> v0"
  shows "pc_of (run 4 [Vi (VU_set kScratchReg E32 m1), Ai (li kScratchReg (2 ^ idx)),
                   Vi (vmv_sx v0 kScratchReg), Vi (vmerge_vx d x v)] (Running 0 s)) = Some 4
     \<and> vregs (state_of (run 4 [Vi (VU_set kScratchReg E32 m1), Ai (li kScratchReg (2 ^ idx)),
                   Vi (vmv_sx v0 kScratchReg), Vi (vmerge_vx d x v)] (Running 0 s))) d
       = map_lanes 32 (\<lambda>i. if bit (map_lanes 32 (\<lambda>i. if i = 0 then scalar_elem 32 (2 ^ idx)
                                                        else lane 32 (vregs s v0) i)) i
                             then scalar_elem 32 (get_x s x) else lane 32 (vregs s v) i)"
  using assms
  by (simp add: exec_simps set_v_def Let_def cong: if_cong)

lemma i32x4_extract_run:
  assumes "r \<noteq> zero_reg"
  shows "pc_of (run 3 [Vi (VU_set kScratchReg E32 m1), Vi (vslidedown_vi kSimd128ScratchReg d idx),
                   Vi (vmv_xs r kSimd128ScratchReg)] (Running 0 s)) = Some 3
     \<and> get_x (state_of (run 3 [Vi (VU_set kScratchReg E32 m1), Vi (vslidedown_vi kSimd128ScratchReg d idx),
                   Vi (vmv_xs r kSimd128ScratchReg)] (Running 0 s))) r
       = ucast (lane 32 (map_lanes 32 (\<lambda>i. if i + idx < 4 then lane 32 (vregs s d) (i + idx) else 0)) 0)"
  using assms
  by (simp add: exec_simps set_v_def Let_def cong: if_cong)

lemma i32x4_lane_roundtrip:
  assumes "idx < 4" "x \<noteq> kScratchReg" "v \<noteq> v0" "r \<noteq> zero_reg"
  shows "let c1 = run 4 [Vi (VU_set kScratchReg E32 m1), Ai (li kScratchReg (2 ^ idx)),
                   Vi (vmv_sx v0 kScratchReg), Vi (vmerge_vx d x v)] (Running 0 s);
             c2 = run 3 [Vi (VU_set kScratchReg E32 m1), Vi (vslidedown_vi kSimd128ScratchReg d idx),
                   Vi (vmv_xs r kSimd128ScratchReg)] (Running 0 (state_of c1))
         in pc_of c1 = Some 4 \<and> pc_of c2 = Some 3
            \<and> get_x (state_of c2) r = get_x s x
            \<and> (\<forall>j<4. j \<noteq> idx \<longrightarrow> lane 32 (vregs (state_of c1) d) j = lane 32 (vregs s v) j)"
proof -
  have m: "bit (map_lanes 32 (\<lambda>i. if i = 0 then scalar_elem 32 (2 ^ idx)
                                     else lane 32 (vregs s v0) i)) j \<longleftrightarrow> j = idx" if "j < 4" for j
    using that assms(1) by (simp add: bit_map_lanes bit_simps bit_lane_mask)
  have l: "lane 32 (map_lanes 32 (\<lambda>i. if bit (map_lanes 32 (\<lambda>i. if i = 0 then scalar_elem 32 (2 ^ idx)
                                                        else lane 32 (vregs s v0) i)) i
                             then scalar_elem 32 (get_x s x) else lane 32 (vregs s v) i)) j
         = (if j = idx then take_bit 32 (scalar_elem 32 (get_x s x)) else lane 32 (vregs s v) j)"
    if "j < 4" for j
    using that by (simp add: lane_map_lanes m)
  note rp = i32x4_replace_run [OF assms(2,3), of idx d s]
  note ex = i32x4_extract_run [OF assms(4), of d idx]
  have e: "lane 32 (map_lanes 32 (\<lambda>i. if i + idx < 4 then lane 32 D (i + idx) else 0)) 0 = lane 32 D idx"
    for D
    using assms(1) by (simp add: lane_map_lanes)
  show ?thesis
    unfolding Let_def
    using assms(1)
    by (simp add: rp ex e l ucast_scalar_elem)
qed


lemma bit_lane_mask16:
  assumes "idx < 16" "j < 16"
  shows "bit (scalar_elem 16 (2 ^ idx)) j \<longleftrightarrow> j = idx"
  using assms by (auto simp: scalar_elem_def bit_simps)

lemma bit_lane_mask64:
  assumes "idx < 31" "j < 64"
  shows "bit (scalar_elem 64 (2 ^ idx)) j \<longleftrightarrow> j = idx"
  using assms by (auto simp: scalar_elem_def bit_simps)

lemma sext_scalar_elem16:
  "signed_take_bit 15 (ucast (take_bit 16 (scalar_elem 16 x)) :: 32 word) = signed_take_bit 15 x"
  by (rule bit_eqI) (auto simp: scalar_elem_def bit_simps)

lemma sext_scalar_elem8:
  "signed_take_bit 7 (ucast (take_bit 8 (scalar_elem 8 x)) :: 32 word) = signed_take_bit 7 x"
  by (rule bit_eqI) (auto simp: scalar_elem_def bit_simps)

lemma i16x8_replace_run:
  assumes "x \<noteq> kScratchReg" "v \<noteq> v0"
  shows "pc_of (run 4 [Vi (VU_set kScratchReg E16 m1), Ai (li kScratchReg (2 ^ idx)),
                   Vi (vmv_sx v0 kScratchReg), Vi (vmerge_vx d x v)] (Running 0 s)) = Some 4
     \<and> vregs (state_of (run 4 [Vi (VU_set kScratchReg E16 m1), Ai (li kScratchReg (2 ^ idx)),
                   Vi (vmv_sx v0 kScratchReg), Vi (vmerge_vx d x v)] (Running 0 s))) d
       = map_lanes 16 (\<lambda>i. if bit (map_lanes 16 (\<lambda>i. if i = 0 then scalar_elem 16 (2 ^ idx)
                                                        else lane 16 (vregs s v0) i)) i
                             then scalar_elem 16 (get_x s x) else lane 16 (vregs s v) i)"
  using assms
  by (simp add: exec_simps set_v_def Let_def cong: if_cong)

lemma i16x8_extract_run:
  assumes "r \<noteq> zero_reg"
  shows "pc_of (run 3 [Vi (VU_set kScratchReg E16 m1), Vi (vslidedown_vi kSimd128ScratchReg d idx),
                   Vi (vmv_xs r kSimd128ScratchReg)] (Running 0 s)) = Some 3
     \<and> get_x (state_of (run 3 [Vi (VU_set kScratchReg E16 m1), Vi (vslidedown_vi kSimd128ScratchReg d idx),
                   Vi (vmv_xs r kSimd128ScratchReg)] (Running 0 s))) r
       = signed_take_bit 15
           (ucast (lane 16 (map_lanes 16 (\<lambda>i. if i + idx < 8 then lane 16 (vregs s d) (i + idx) else 0)) 0))"
  using assms
  by (simp add: exec_simps set_v_def Let_def cong: if_cong)

lemma i16x8_lane_roundtrip:
  assumes "idx < 8" "x \<noteq> kScratchReg" "v \<noteq> v0" "r \<noteq> zero_reg"
  shows "let c1 = run 4 [Vi (VU_set kScratchReg E16 m1), Ai (li kScratchReg (2 ^ idx)),
                   Vi (vmv_sx v0 kScratchReg), Vi (vmerge_vx d x v)] (Running 0 s);
             c2 = run 3 [Vi (VU_set kScratchReg E16 m1), Vi (vslidedown_vi kSimd128ScratchReg d idx),
                   Vi (vmv_xs r kSimd128ScratchReg)] (Running 0 (state_of c1))
         in pc_of c1 = Some 4 \<and> pc_of c2 = Some 3
            \<and> get_x (state_of c2) r = signed_take_bit 15 (get_x s x)
            \<and> (\<forall>j<8. j \<noteq> idx \<longrightarrow> lane 16 (vregs (state_of c1) d) j = lane 16 (vregs s v) j)"
proof -
  have m: "bit (map_lanes 16 (\<lambda>i. if i = 0 then scalar_elem 16 (2 ^ idx)
                                     else lane 16 (vregs s v0) i)) j \<longleftrightarrow> j = idx" if "j < 8" for j
    using that assms(1) by (simp add: bit_map_lanes bit_simps bit_lane_mask16)
  have l: "lane 16 (map_lanes 16 (\<lambda>i. if bit (map_lanes 16 (\<lambda>i. if i = 0 then scalar_elem 16 (2 ^ idx)
                                                        else lane 16 (vregs s v0) i)) i
                             then scalar_elem 16 (get_x s x) else lane 16 (vregs s v) i)) j
         = (if j = idx then take_bit 16 (scalar_elem 16 (get_x s x)) else lane 16 (vregs s v) j)"
    if "j < 8" for j
    using that by (simp add: lane_map_lanes m)
  note rp = i16x8_replace_run [OF assms(2,3), of idx d s]
  note ex = i16x8_extract_run [OF assms(4), of d idx]
  have e: "lane 16 (map_lanes 16 (\<lambda>i. if i + idx < 8 then lane 16 D (i + idx) else 0)) 0 = lane 16 D idx"
    for D
    using assms(1) by (simp add: lane_map_lanes)
  show ?thesis
    unfolding Let_def
    using assms(1)
    by (simp add: rp ex e l sext_scalar_elem16)
qed

lemma i8x16_replace_run:
  assumes "x \<noteq> kScratchReg" "v \<noteq> v0"
  shows "pc_of (run 5 [Vi (VU_set kScratchReg E64 m1), Ai (li kScratchReg (2 ^ idx)),
                   Vi (vmv_sx v0 kScratchReg), Vi (VU_set kScratchReg E8 m1),
                   Vi (vmerge_vx d x v)] (Running 0 s)) = Some 5
     \<and> vregs (state_of (run 5 [Vi (VU_set kScratchReg E64 m1), Ai (li kScratchReg (2 ^ idx)),
                   Vi (vmv_sx v0 kScratchReg), Vi (VU_set kScratchReg E8 m1),
                   Vi (vmerge_vx d x v)] (Running 0 s))) d
       = map_lanes 8 (\<lambda>i. if bit (map_lanes 64 (\<lambda>i. if i = 0 then scalar_elem 64 (2 ^ idx)
                                                        else lane 64 (vregs s v0) i)) i
                             then scalar_elem 8 (get_x s x) else lane 8 (vregs s v) i)"
  using assms
  by (simp add: exec_simps set_v_def Let_def cong: if_cong)

lemma i8x16_extract_run:
  assumes "r \<noteq> zero_reg"
  shows "pc_of (run 3 [Vi (VU_set kScratchReg E8 m1), Vi (vslidedown_vi kSimd128ScratchReg d idx),
                   Vi (vmv_xs r kSimd128ScratchReg)] (Running 0 s)) = Some 3
     \<and> get_x (state_of (run 3 [Vi (VU_set kScratchReg E8 m1), Vi (vslidedown_vi kSimd128ScratchReg d idx),
                   Vi (vmv_xs r kSimd128ScratchReg)] (Running 0 s))) r
       = signed_take_bit 7
           (ucast (lane 8 (map_lanes 8 (\<lambda>i. if i + idx < 16 then lane 8 (vregs s d) (i + idx) else 0)) 0))"
  using assms
  by (simp add: exec_simps set_v_def Let_def cong: if_cong)

lemma i8x16_lane_roundtrip:
  assumes "idx < 16" "x \<noteq> kScratchReg" "v \<noteq> v0" "r \<noteq> zero_reg"
  shows "let c1 = run 5 [Vi (VU_set kScratchReg E64 m1), Ai (li kScratchReg (2 ^ idx)),
                   Vi (vmv_sx v0 kScratchReg), Vi (VU_set kScratchReg E8 m1),
                   Vi (vmerge_vx d x v)] (Running 0 s);
             c2 = run 3 [Vi (VU_set kScratchReg E8 m1), Vi (vslidedown_vi kSimd128ScratchReg d idx),
                   Vi (vmv_xs r kSimd128ScratchReg)] (Running 0 (state_of c1))
         in pc_of c1 = Some 5 \<and> pc_of c2 = Some 3
            \<and> get_x (state_of c2) r = signed_take_bit 7 (get_x s x)
            \<and> (\<forall>j<16. j \<noteq> idx \<longrightarrow> lane 8 (vregs (state_of c1) d) j = lane 8 (vregs s v) j)"
proof -
  have m: "bit (map_lanes 64 (\<lambda>i. if i = 0 then scalar_elem 64 (2 ^ idx)
                                     else lane 64 (vregs s v0) i)) j \<longleftrightarrow> j = idx" if "j < 16" for j
    using that assms(1) by (simp add: bit_map_lanes bit_simps bit_lane_mask64)
  have l: "lane 8 (map_lanes 8 (\<lambda>i. if bit (map_lanes 64 (\<lambda>i. if i = 0 then scalar_elem 64 (2 ^ idx)
                                                        else lane 64 (vregs s v0) i)) i
                             then scalar_elem 8 (get_x s x) else lane 8 (vregs s v) i)) j
         = (if j = idx then take_bit 8 (scalar_elem 8 (get_x s x)) else lane 8 (vregs s v) j)"
    if "j < 16" for j
    using that by (simp add: lane_map_lanes m)
  note rp = i8x16_replace_run [OF assms(2,3), of idx d s]
  note ex = i8x16_extract_run [OF assms(4), of d idx]
  have e: "lane 8 (map_lanes 8 (\<lambda>i. if i + idx < 16 then lane 8 D (i + idx) else 0)) 0 = lane 8 D idx"
    for D
    using assms(1) by (simp add: lane_map_lanes)
  show ?thesis
    unfolding Let_def
    using assms(1)
    by (simp add: rp ex e l sext_scalar_elem8)
qed


lemma ucast_scalar_elem64: "(ucast (take_bit 32 (scalar_elem 32 x)) :: 64 word) = ucast x"
proof (rule bit_eqI)
  fix n
  assume "possible_bit TYPE(64 word) n"
  consider "n < 31" | "n = 31" | "32 \<le> n" by arith
  then show "bit (ucast (take_bit 32 (scalar_elem 32 x)) :: 64 word) n = bit (ucast x :: 64 word) n"
    by cases (auto simp: scalar_elem_def bit_simps min_def dest: bit_imp_le_length)
qed

lemma f32x4_replace_run:
  assumes "v \<noteq> v0"
  shows "pc_of (run 5 [Vi (VU_set kScratchReg E32 m1), Ai (li kScratchReg (2 ^ idx)),
                   Vi (vmv_sx v0 kScratchReg), Vi (fmv_x_w kScratchReg x),
                   Vi (vmerge_vx d kScratchReg v)] (Running 0 s)) = Some 5
     \<and> vregs (state_of (run 5 [Vi (VU_set kScratchReg E32 m1), Ai (li kScratchReg (2 ^ idx)),
                   Vi (vmv_sx v0 kScratchReg), Vi (fmv_x_w kScratchReg x),
                   Vi (vmerge_vx d kScratchReg v)] (Running 0 s))) d
       = map_lanes 32 (\<lambda>i. if bit (map_lanes 32 (\<lambda>i. if i = 0 then scalar_elem 32 (2 ^ idx)
                                                        else lane 32 (vregs s v0) i)) i
                             then scalar_elem 32 (ucast (fregs s x)) else lane 32 (vregs s v) i)"
  using assms
  by (simp add: exec_simps set_v_def Let_def cong: if_cong)

lemma f32x4_extract_run:
  "pc_of (run 3 [Vi (VU_set kScratchReg E32 m1), Vi (vslidedown_vi kSimd128ScratchReg d idx),
                   Vi (vfmv_fs r kSimd128ScratchReg)] (Running 0 s)) = Some 3
     \<and> fregs (state_of (run 3 [Vi (VU_set kScratchReg E32 m1), Vi (vslidedown_vi kSimd128ScratchReg d idx),
                   Vi (vfmv_fs r kSimd128ScratchReg)] (Running 0 s))) r
       = ucast (lane 32 (map_lanes 32 (\<lambda>i. if i + idx < 4 then lane 32 (vregs s d) (i + idx) else 0)) 0)
         OR 0xFFFFFFFF00000000"
  by (simp add: exec_simps set_v_def Let_def cong: if_cong)

lemma f32x4_lane_roundtrip:
  assumes "idx < 4" "v \<noteq> v0"
  shows "let c1 = run 5 [Vi (VU_set kScratchReg E32 m1), Ai (li kScratchReg (2 ^ idx)),
                   Vi (vmv_sx v0 kScratchReg), Vi (fmv_x_w kScratchReg x),
                   Vi (vmerge_vx d kScratchReg v)] (Running 0 s);
             c2 = run 3 [Vi (VU_set kScratchReg E32 m1), Vi (vslidedown_vi kSimd128ScratchReg d idx),
                   Vi (vfmv_fs r kSimd128ScratchReg)] (Running 0 (state_of c1))
         in pc_of c1 = Some 5 \<and> pc_of c2 = Some 3
            \<and> fregs (state_of c2) r = ucast (ucast (fregs s x) :: 32 word) OR 0xFFFFFFFF00000000
            \<and> (\<forall>j<4. j \<noteq> idx \<longrightarrow> lane 32 (vregs (state_of c1) d) j = lane 32 (vregs s v) j)"
proof -
  have m: "bit (map_lanes 32 (\<lambda>i. if i = 0 then scalar_elem 32 (2 ^ idx)
                                     else lane 32 (vregs s v0) i)) j \<longleftrightarrow> j = idx" if "j < 4" for j
    using that assms(1) by (simp add: bit_map_lanes bit_simps bit_lane_mask)
  have l: "lane 32 (map_lanes 32 (\<lambda>i. if bit (map_lanes 32 (\<lambda>i. if i = 0 then scalar_elem 32 (2 ^ idx)
                                                        else lane 32 (vregs s v0) i)) i
                             then scalar_elem 32 y else lane 32 (vregs s v) i)) j
         = (if j = idx then take_bit 32 (scalar_elem 32 y) else lane 32 (vregs s v) j)"
    if "j < 4" for j y
    using that by (simp add: lane_map_lanes m)
  note rp = f32x4_replace_run [OF assms(2), of idx x d s]
  note ex = f32x4_extract_run [of d idx r]
  have e: "lane 32 (map_lanes 32 (\<lambda>i. if i + idx < 4 then lane 32 D (i + idx) else 0)) 0 = lane 32 D idx"
    for D
    using assms(1) by (simp add: lane_map_lanes)
  show ?thesis
    unfolding Let_def
    using assms(1)
    by (simp add: rp ex e l ucast_scalar_elem64)
qed

lemma lane_rules_code:
  "emit_i8x16_replace_lane (FpReg d) (FpReg v) (GpReg x) idx a
     = Inr (emits [Vi (VU_set kScratchReg E64 m1), Ai (li kScratchReg (2 ^ idx)),
                   Vi (vmv_sx v0 kScratchReg), Vi (VU_set kScratchReg E8 m1),
                   Vi (vmerge_vx (toV d) x (toV v))] a)"
  "emit_i8x16_extract_lane_s (GpReg r) (FpReg d) idx a
     = Inr (emits [Vi (VU_set kScratchReg E8 m1), Vi (vslidedown_vi kSimd128ScratchReg (toV d) idx),
                   Vi (vmv_xs r kSimd128ScratchReg)] a)"
  "emit_i16x8_replace_lane (FpReg d) (FpReg v) (GpReg x) idx a
     = Inr (emits [Vi (VU_set kScratchReg E16 m1), Ai (li kScratchReg (2 ^ idx)),
                   Vi (vmv_sx v0 kScratchReg), Vi (vmerge_vx (toV d) x (toV v))] a)"
  "emit_i16x8_extract_lane_s (GpReg r) (FpReg d) idx a
     = Inr (emits [Vi (VU_set kScratchReg E16 m1), Vi (vslidedown_vi kSimd128ScratchReg (toV d) idx),
                   Vi (vmv_xs r kSimd128ScratchReg)] a)"
  "emit_i32x4_replace_lane (FpReg d) (FpReg v) (GpReg x) idx a
     = Inr (emits [Vi (VU_set kScratchReg E32 m1), Ai (li kScratchReg (2 ^ idx)),
                   Vi (vmv_sx v0 kScratchReg), Vi (vmerge_vx (toV d) x (toV v))] a)"
  "emit_i32x4_extract_lane (GpReg r) (FpReg d) idx a
     = Inr (emits [Vi (VU_set kScratchReg E32 m1), Vi (vslidedown_vi kSimd128ScratchReg (toV d) idx),
                   Vi (vmv_xs r kSimd128ScratchReg)] a)"
  "emit_f32x4_replace_lane (FpReg d) (FpReg v) (FpReg f) idx a
     = Inr (emits [Vi (VU_set kScratchReg E32 m1), Ai (li kScratchReg (2 ^ idx)),
                   Vi (vmv_sx v0 kScratchReg), Vi (fmv_x_w kScratchReg f),
                   Vi (vmerge_vx (toV d) kScratchReg (toV v))] a)"
  "emit_f32x4_extract_lane (FpReg g) (FpReg d) idx a
     = Inr (emits [Vi (VU_set kScratchReg E32 m1), Vi (vslidedown_vi kSimd128ScratchReg (toV d) idx),
                   Vi (vfmv_fs g kSimd128ScratchReg)] a)"
  by (simp_all add: emit_i8x16_replace_lane_def emit_i8x16_extract_lane_s_def
      emit_i16x8_replace_lane_def emit_i16x8_extract_lane_s_def
      emit_i32x4_replace_lane_def emit_i32x4_extract_lane_def
      emit_f32x4_replace_lane_def emit_f32x4_extract_lane_def bind_err_def dcheck_def)

section \<open>Register aliasing\<close>

text \<open>
  C4. \<open>EnsureNoAlias\<close> on a candidate and a register pair, with a scratch list that is
  not empty and holds neither a half of the pair nor \<open>zero_reg\<close> (the scratch registers
  are not among the registers that hold values, which is what the two \<^verbatim>\<open>DCHECK_NE\<close>
  of the source state). The call returns. The register it returns is the candidate
  exactly when the candidate is neither half of the pair; then nothing is emitted and no
  scratch register is taken. Otherwise the register returned is the first scratch
  register: it differs from both halves and from the candidate, the code emitted is the
  one move from the candidate into it, and running that move leaves the candidate's
  value in it.
\<close>

theorem EnsureNoAlias_correct:
  assumes "temps \<noteq> []" and "lo \<notin> set temps" and "hi \<notin> set temps"
    and "zero_reg \<notin> set temps"
  shows "case EnsureNoAlias reg (GpPair lo hi) temps of
           Inl e \<Rightarrow> False
         | Inr (r, temps', code) \<Rightarrow>
             (r = reg \<longleftrightarrow> reg \<noteq> lo \<and> reg \<noteq> hi)
             \<and> (r = reg \<longrightarrow> code = [] \<and> temps' = temps)
             \<and> (r \<noteq> reg \<longrightarrow> r \<noteq> lo \<and> r \<noteq> hi \<and> r = hd temps \<and> temps' = tl temps
                   \<and> code = [Ai (mv r reg)]
                   \<and> (\<forall>s. \<exists>s'. exec_alu (mv r reg) s = Some s' \<and> get_x s' r = get_x s reg))"
proof (cases "reg \<noteq> lo \<and> reg \<noteq> hi")
  case True
  then show ?thesis
    by (simp add: EnsureNoAlias_def bind_err_def dcheck_def)
next
  case False
  from assms(1) obtain t ts where t: "temps = t # ts"
    by (cases temps) simp_all
  with assms have d: "lo \<noteq> t" "hi \<noteq> t" "t \<noteq> zero_reg"
    by auto
  with False have "t \<noteq> reg" by auto
  with False t d show ?thesis
    by (auto simp: EnsureNoAlias_def bind_err_def dcheck_def Acquire_def get_x_set_x)
qed

theorem EnsureNoAlias_correct_witness:
  "[kScratchReg, kScratchReg2] \<noteq> []
   \<and> a0 \<notin> set [kScratchReg, kScratchReg2] \<and> a1 \<notin> set [kScratchReg, kScratchReg2]
   \<and> zero_reg \<notin> set [kScratchReg, kScratchReg2]
   \<and> EnsureNoAlias a0 (GpPair a0 a1) [kScratchReg, kScratchReg2]
       = Inr (kScratchReg, [kScratchReg2], [Ai (mv kScratchReg a0)])
   \<and> EnsureNoAlias a2 (GpPair a0 a1) [kScratchReg, kScratchReg2]
       = Inr (a2, [kScratchReg, kScratchReg2], [])
   \<and> (\<forall>s. \<exists>s'. exec_alu (mv kScratchReg a0) s = Some s' \<and> get_x s' kScratchReg = get_x s a0)"
proof -
  have h: "[kScratchReg, kScratchReg2] \<noteq> []" "a0 \<notin> set [kScratchReg, kScratchReg2]"
    "a1 \<notin> set [kScratchReg, kScratchReg2]" "zero_reg \<notin> set [kScratchReg, kScratchReg2]"
    by simp_all
  have e: "EnsureNoAlias a0 (GpPair a0 a1) [kScratchReg, kScratchReg2]
           = Inr (kScratchReg, [kScratchReg2], [Ai (mv kScratchReg a0)])"
    "EnsureNoAlias a2 (GpPair a0 a1) [kScratchReg, kScratchReg2]
           = Inr (a2, [kScratchReg, kScratchReg2], [])"
    by (simp_all add: EnsureNoAlias_def bind_err_def dcheck_def Acquire_def)
  from EnsureNoAlias_correct [OF h, of a0]
  have "\<forall>s. \<exists>s'. exec_alu (mv kScratchReg a0) s = Some s' \<and> get_x s' kScratchReg = get_x s a0"
    unfolding e by simp
  with h e show ?thesis by blast
qed

section \<open>Spill and fill\<close>

text \<open>
  C6. Spill followed by fill at the same offset and kind, for the kind \<open>kRtt\<close>: \<open>Spill\<close>
  emits the word store of the register to the slot, but \<open>Fill\<close> has no case for the kind
  and reaches \<open>UNREACHABLE()\<close>, so no load is emitted and nothing is read back.
\<close>

theorem Fill_kRtt_unreachable:
  "Spill 16 (GpReg a0) kRtt a = Inr (emit (Mi (Sw a0 (MemOperand fp (- 16)))) (RecordUsedSpillOffset 16 a))
   \<and> Fill (GpReg a0) 16 kRtt (emit (Mi (Sw a0 (MemOperand fp (- 16)))) (RecordUsedSpillOffset 16 a))
       = Inl Unreachable"
  by (simp add: Spill_def Fill_def bind_err_def dcheck_def GetStackSlot_def)

section \<open>Tail calls\<close>



section \<open>Zero-filling stack slots\<close>

text \<open>
  C10. \<open>FillStackSlotsWithZero(16, 8)\<close>, one stack slot, takes the straight-line path.
  The region of the claim is \<open>fp - 24\<close> up to \<open>fp - 16\<close>, two words. The code emitted is
  the single word store of zero to \<open>fp - 24\<close>; run from any state it clears that word and
  leaves the word at \<open>fp - 20\<close>, the upper half of the slot, as it was.
\<close>

theorem FillStackSlotsWithZero_one_slot:
  "FillStackSlotsWithZero 16 8 a
     = Inr (emits [Mi (Sw zero_reg (MemOperand fp (- 24)))] (RecordUsedSpillOffset 24 a))
   \<and> (\<forall>s. exit_of (run 2 [Mi (Sw zero_reg (MemOperand fp (- 24)))] (Running 0 s)) = Some FellThrough
         \<and> load32 (mem (state_of (run 2 [Mi (Sw zero_reg (MemOperand fp (- 24)))] (Running 0 s))))
                  (get_x s fp - 24) = 0
         \<and> load32 (mem (state_of (run 2 [Mi (Sw zero_reg (MemOperand fp (- 24)))] (Running 0 s))))
                  (get_x s fp - 20) = load32 (mem s) (get_x s fp - 20))"
proof -
  have 1: "FillStackSlotsWithZero 16 8 a
             = Inr (emits [Mi (Sw zero_reg (MemOperand fp (- 24)))] (RecordUsedSpillOffset 24 a))"
    by (simp add: FillStackSlotsWithZero_def zero_slots.simps [of 16 8] zero_slots.simps [of 16 0]
        kStackSlotSize_def GetStackSlot_def)
  have 2: "run 2 [Mi (Sw zero_reg (MemOperand fp (- 24)))] (Running 0 s)
             = Exited FellThrough (s\<lparr>mem := store32 (mem s) (get_x s fp - 24) 0\<rparr>)" for s
    by (simp add: exec_simps)
  show ?thesis
    unfolding 2 using 1 by (simp add: load32_store32_same load32_store32_next)
qed

section \<open>Division and remainder\<close>



section \<open>Atomic read-modify-write sequences\<close>

text \<open>
  The sequences with the operand and the result each in a single register. For each of
  the six operations and each store type of 32 bits or fewer, with single registers \<open>v\<close>
  (operand) and \<open>r\<close> (result), the two scratch registers \<open>actual_addr\<close> and \<open>temp\<close> and
  the registers \<open>store_result\<close> and \<open>result_reg\<close> the allocator hands out: the rule
  returns, and the code it appends is the address computation, then \<open>rmw_body\<close>, then
  the move into \<open>r\<close> if the value was loaded elsewhere. For the word-sized accesses
  (\<open>kI32Store\<close>, \<open>kI64Store32\<close>) the body is the retry loop: label, load-reserved, the
  operation, store-conditional, branch back to the label if the store result is not
  zero. For the 8- and 16-bit accesses it is the plain load, fence, the operation, fence,
  plain store, fence, store result set to zero, and the same branch.

  Run on the machine, the word-sized sequence goes round the loop once for every
  store-conditional the environment makes fail and once more, then ends with the word at
  the address replaced by the new value, the old value in \<open>r\<close> and no failure left. The
  narrow sequences end after one pass, each call run once, whatever the environment
  does to store-conditionals: the byte or halfword at the address is replaced by the new
  value and \<open>r\<close> holds the old one, zero-extended.
\<close>

theorem atomic_rmw_sequences:
  fixes dst_addr offset_reg actual_addr result_reg temp store_result v r :: Register
    and offset_imm :: int and op :: Binop and a :: LiftoffAssembler
  assumes scratch: "scratch_register_list a = actual_addr # temp # rest"
    and sr: "GetUnusedRegister (cache_gp_regs a) [dst_addr, offset_reg, v, r] = Inr store_result"
    and rr: "(if r = v \<or> r = dst_addr \<or> r = offset_reg
              then GetUnusedRegister (cache_gp_regs a) [store_result, dst_addr, offset_reg, v, r]
              else Inr r) = Inr result_reg"
    and nr: "dst_addr \<noteq> no_reg" "offset_reg \<noteq> no_reg"
    and sd: "actual_addr \<noteq> temp"
    and sc: "actual_addr \<notin> set (cache_gp_regs a) \<union> {v, r}" "temp \<notin> set (cache_gp_regs a) \<union> {v, r}"
    and nz: "zero_reg \<notin> set (cache_gp_regs a) \<union> {actual_addr, temp, r}"
    and ty: "type \<in> {kI32Store, kI64Store32, kI32Store8, kI64Store8, kI32Store16, kI64Store16}"
    and code: "code = addr_code dst_addr offset_reg offset_imm actual_addr
                      @ rmw_body type op result_reg temp store_result actual_addr v
                      @ fixup r result_reg"
  shows "AtomicRMW op dst_addr offset_reg offset_imm (GpReg v) (GpReg r) type a = Inr (emits code a)
       \<and> (type = kI32Store \<or> type = kI64Store32 \<longrightarrow>
            (\<forall>s. let addr = get_x s dst_addr + get_x s offset_reg + word_of_int offset_imm;
                     c = run (length code + 5 * sc_failures s + 1) code (Running 0 s)
                 in exit_of c = Some FellThrough
                  \<and> mem (state_of c)
                      = store32 (mem s) addr (binop_val op (load32 (mem s) addr) (get_x s v))
                  \<and> get_x (state_of c) r = load32 (mem s) addr
                  \<and> sc_failures (state_of c) = 0))
       \<and> (type = kI32Store8 \<or> type = kI64Store8 \<longrightarrow>
            (\<forall>s. let addr = get_x s dst_addr + get_x s offset_reg + word_of_int offset_imm;
                     c = run (length code + 1) code (Running 0 s)
                 in exit_of c = Some FellThrough
                  \<and> mem (state_of c)
                      = store8 (mem s) addr (binop_val op (load8 (mem s) addr) (get_x s v))
                  \<and> get_x (state_of c) r = load8 (mem s) addr
                  \<and> sc_failures (state_of c) = sc_failures s))
       \<and> (type = kI32Store16 \<or> type = kI64Store16 \<longrightarrow>
            (\<forall>s. let addr = get_x s dst_addr + get_x s offset_reg + word_of_int offset_imm;
                     c = run (length code + 1) code (Running 0 s)
                 in exit_of c = Some FellThrough
                  \<and> mem (state_of c)
                      = store16 (mem s) addr (binop_val op (load16 (mem s) addr) (get_x s v))
                  \<and> get_x (state_of c) r = load16 (mem s) addr
                  \<and> sc_failures (state_of c) = sc_failures s))"
proof -
  from GetUnusedRegister_Inr [OF sr]
  have s1: "store_result \<in> set (cache_gp_regs a)" "store_result \<noteq> v" "store_result \<noteq> r"
    by auto
  from rr s1 have r1: "result_reg = r \<or> result_reg \<in> set (cache_gp_regs a)"
    and r2: "result_reg \<noteq> v" and r3: "result_reg \<noteq> store_result"
    by (auto split: if_splits dest: GetUnusedRegister_Inr)
  from r1 r3 s1 sc sd nz r2
  have d: "result_reg \<noteq> temp" "result_reg \<noteq> store_result" "result_reg \<noteq> actual_addr"
    "temp \<noteq> store_result" "temp \<noteq> actual_addr" "store_result \<noteq> actual_addr"
    "result_reg \<noteq> zero_reg" "temp \<noteq> zero_reg" "store_result \<noteq> zero_reg" "actual_addr \<noteq> zero_reg"
    "v \<noteq> result_reg" "v \<noteq> temp" "v \<noteq> store_result"
    by auto
  from sc nz have e: "v \<noteq> actual_addr" "r \<noteq> zero_reg"
    by auto
  from ty have ty7: "type \<in> {kI32Store, kI64Store32, kI64Store, kI32Store8, kI64Store8,
                             kI32Store16, kI64Store16}"
    by auto
  have emit: "AtomicRMW op dst_addr offset_reg offset_imm (GpReg v) (GpReg r) type a
                = Inr (emits code a)"
    unfolding code
    using AtomicBinop_emits [OF scratch sr rr nr ty7, of offset_imm op]
    by (cases op)
      (simp_all add: AtomicAdd_def AtomicSub_def AtomicAnd_def AtomicOr_def AtomicXor_def
        AtomicExchange_def)
  have word: "type = kI32Store \<or> type = kI64Store32 \<longrightarrow>
      (\<forall>s. let addr = get_x s dst_addr + get_x s offset_reg + word_of_int offset_imm;
               c = run (length code + 5 * sc_failures s + 1) code (Running 0 s)
           in exit_of c = Some FellThrough
            \<and> mem (state_of c) = store32 (mem s) addr (binop_val op (load32 (mem s) addr) (get_x s v))
            \<and> get_x (state_of c) r = load32 (mem s) addr
            \<and> sc_failures (state_of c) = 0)"
  proof (intro impI allI)
    fix s
    assume t: "type = kI32Store \<or> type = kI64Store32"
    then have b: "code = addr_code dst_addr offset_reg offset_imm actual_addr
                         @ retry_loop op result_reg temp store_result actual_addr v
                         @ fixup r result_reg"
      by (simp add: rmw_body_def code)
    from word_rmw_run [OF d e, of dst_addr offset_reg offset_imm op s]
    show "let addr = get_x s dst_addr + get_x s offset_reg + word_of_int offset_imm;
               c = run (length code + 5 * sc_failures s + 1) code (Running 0 s)
           in exit_of c = Some FellThrough
            \<and> mem (state_of c) = store32 (mem s) addr (binop_val op (load32 (mem s) addr) (get_x s v))
            \<and> get_x (state_of c) r = load32 (mem s) addr
            \<and> sc_failures (state_of c) = 0"
      unfolding b Let_def by (elim exE conjE) simp
  qed
  have byte: "type = kI32Store8 \<or> type = kI64Store8 \<longrightarrow>
      (\<forall>s. let addr = get_x s dst_addr + get_x s offset_reg + word_of_int offset_imm;
               c = run (length code + 1) code (Running 0 s)
           in exit_of c = Some FellThrough
            \<and> mem (state_of c) = store8 (mem s) addr (binop_val op (load8 (mem s) addr) (get_x s v))
            \<and> get_x (state_of c) r = load8 (mem s) addr
            \<and> sc_failures (state_of c) = sc_failures s)"
  proof (intro impI allI)
    fix s
    assume t: "type = kI32Store8 \<or> type = kI64Store8"
    then have b: "code = addr_code dst_addr offset_reg offset_imm actual_addr
                         @ fenced_access True op result_reg temp store_result actual_addr v
                         @ fixup r result_reg"
      by (auto simp: rmw_body_def code)
    from fenced_rmw_run [OF d e, of dst_addr offset_reg offset_imm True op s]
    show "let addr = get_x s dst_addr + get_x s offset_reg + word_of_int offset_imm;
               c = run (length code + 1) code (Running 0 s)
           in exit_of c = Some FellThrough
            \<and> mem (state_of c) = store8 (mem s) addr (binop_val op (load8 (mem s) addr) (get_x s v))
            \<and> get_x (state_of c) r = load8 (mem s) addr
            \<and> sc_failures (state_of c) = sc_failures s"
      unfolding b Let_def by (elim exE conjE) simp
  qed
  have half: "type = kI32Store16 \<or> type = kI64Store16 \<longrightarrow>
      (\<forall>s. let addr = get_x s dst_addr + get_x s offset_reg + word_of_int offset_imm;
               c = run (length code + 1) code (Running 0 s)
           in exit_of c = Some FellThrough
            \<and> mem (state_of c) = store16 (mem s) addr (binop_val op (load16 (mem s) addr) (get_x s v))
            \<and> get_x (state_of c) r = load16 (mem s) addr
            \<and> sc_failures (state_of c) = sc_failures s)"
  proof (intro impI allI)
    fix s
    assume t: "type = kI32Store16 \<or> type = kI64Store16"
    then have b: "code = addr_code dst_addr offset_reg offset_imm actual_addr
                         @ fenced_access False op result_reg temp store_result actual_addr v
                         @ fixup r result_reg"
      by (auto simp: rmw_body_def code)
    from fenced_rmw_run [OF d e, of dst_addr offset_reg offset_imm False op s]
    show "let addr = get_x s dst_addr + get_x s offset_reg + word_of_int offset_imm;
               c = run (length code + 1) code (Running 0 s)
           in exit_of c = Some FellThrough
            \<and> mem (state_of c) = store16 (mem s) addr (binop_val op (load16 (mem s) addr) (get_x s v))
            \<and> get_x (state_of c) r = load16 (mem s) addr
            \<and> sc_failures (state_of c) = sc_failures s"
      unfolding b Let_def by (elim exE conjE) simp
  qed
  show ?thesis
    by (intro conjI) (rule emit word byte half)+
qed


theorem atomic_rmw_sequences_witness:
  "scratch_register_list new_assembler = t3 # t5 # []
   \<and> GetUnusedRegister (cache_gp_regs new_assembler) [a2, a3, a1, a0] = Inr a4
   \<and> AtomicAdd a2 a3 0 (GpReg a1) (GpReg a0) kI32Store new_assembler
       = Inr (emits [Ai (Add t3 a2 (OpReg a3)), Ci (bind_label ''retry''),
                     Ci (lr_w True False a0 t3), Ai (add t5 a0 a1),
                     Ci (sc_w False True a4 t3 t5), Ci (bnez a4 ''retry'')] new_assembler)
   \<and> exit_of (run 17 [Ai (Add t3 a2 (OpReg a3)), Ci (bind_label ''retry''),
                       Ci (lr_w True False a0 t3), Ai (add t5 a0 a1),
                       Ci (sc_w False True a4 t3 t5), Ci (bnez a4 ''retry'')]
                  (Running 0 ((set_x a2 256 (set_x a1 5 zero_machine))\<lparr>sc_failures := 2\<rparr>)))
       = Some FellThrough
   \<and> load32 (mem (state_of (run 17 [Ai (Add t3 a2 (OpReg a3)), Ci (bind_label ''retry''),
                                     Ci (lr_w True False a0 t3), Ai (add t5 a0 a1),
                                     Ci (sc_w False True a4 t3 t5), Ci (bnez a4 ''retry'')]
                  (Running 0 ((set_x a2 256 (set_x a1 5 zero_machine))\<lparr>sc_failures := 2\<rparr>))))) 256
       = 5
   \<and> AtomicExchange a2 a3 0 (GpReg a1) (GpReg a0) kI32Store8 new_assembler
       = Inr (emits [Ai (Add t3 a2 (OpReg a3)), Ci (bind_label ''retry''),
                     Mi (lbu a0 t3 0), Ci sync, Ai (mv t5 a1), Ci sync, Mi (sb t5 t3 0), Ci sync,
                     Ai (mv a4 zero_reg), Ci (bnez a4 ''retry'')] new_assembler)
   \<and> exit_of (run 11 [Ai (Add t3 a2 (OpReg a3)), Ci (bind_label ''retry''),
                     Mi (lbu a0 t3 0), Ci sync, Ai (mv t5 a1), Ci sync, Mi (sb t5 t3 0), Ci sync,
                     Ai (mv a4 zero_reg), Ci (bnez a4 ''retry'')]
                  (Running 0 ((set_x a2 256 (set_x a1 5 zero_machine))\<lparr>sc_failures := 2\<rparr>)))
       = Some FellThrough"
proof -
  let ?s = "(set_x a2 256 (set_x a1 5 zero_machine))\<lparr>sc_failures := 2\<rparr>"
  have h: "scratch_register_list new_assembler = t3 # t5 # []"
    "GetUnusedRegister (cache_gp_regs new_assembler) [a2, a3, a1, a0] = Inr a4"
    "(if a0 = a1 \<or> a0 = a2 \<or> a0 = a3
      then GetUnusedRegister (cache_gp_regs new_assembler) [a4, a2, a3, a1, a0]
      else Inr a0) = Inr a0"
    "a2 \<noteq> no_reg" "a3 \<noteq> no_reg" "t3 \<noteq> t5"
    "t3 \<notin> set (cache_gp_regs new_assembler) \<union> {a1, a0}"
    "t5 \<notin> set (cache_gp_regs new_assembler) \<union> {a1, a0}"
    "zero_reg \<notin> set (cache_gp_regs new_assembler) \<union> {t3, t5, a0}"
    by (simp_all add: new_assembler_def GetUnusedRegister_def)
  have t1: "kI32Store \<in> {kI32Store, kI64Store32, kI32Store8, kI64Store8, kI32Store16, kI64Store16}"
    and t2: "kI32Store8 \<in> {kI32Store, kI64Store32, kI32Store8, kI64Store8, kI32Store16, kI64Store16}"
    by simp_all
  have c1: "[Ai (Add t3 a2 (OpReg a3)), Ci (bind_label ''retry''),
             Ci (lr_w True False a0 t3), Ai (add t5 a0 a1),
             Ci (sc_w False True a4 t3 t5), Ci (bnez a4 ''retry'')]
            = addr_code a2 a3 0 t3 @ rmw_body kI32Store kAdd a0 t5 a4 t3 a1 @ fixup a0 a0"
    by (simp add: addr_code_def rmw_body_def retry_loop_def fixup_def)
  have c2: "[Ai (Add t3 a2 (OpReg a3)), Ci (bind_label ''retry''),
             Mi (lbu a0 t3 0), Ci sync, Ai (mv t5 a1), Ci sync, Mi (sb t5 t3 0), Ci sync,
             Ai (mv a4 zero_reg), Ci (bnez a4 ''retry'')]
            = addr_code a2 a3 0 t3 @ rmw_body kI32Store8 kExchange a0 t5 a4 t3 a1 @ fixup a0 a0"
    by (simp add: addr_code_def rmw_body_def fenced_access_def fixup_def)
  have m: "mem ?s = (\<lambda>a. 0)" "get_x ?s a2 = 256" "get_x ?s a3 = 0" "get_x ?s a1 = 5"
    "sc_failures ?s = 2"
    by (simp_all add: get_x_set_x)
  from atomic_rmw_sequences [OF h t1 c1]
  have w: "AtomicAdd a2 a3 0 (GpReg a1) (GpReg a0) kI32Store new_assembler
       = Inr (emits [Ai (Add t3 a2 (OpReg a3)), Ci (bind_label ''retry''),
                     Ci (lr_w True False a0 t3), Ai (add t5 a0 a1),
                     Ci (sc_w False True a4 t3 t5), Ci (bnez a4 ''retry'')] new_assembler)"
    and "\<forall>s. let addr = get_x s a2 + get_x s a3 + word_of_int 0;
                c = run (length [Ai (Add t3 a2 (OpReg a3)), Ci (bind_label ''retry''),
                                Ci (lr_w True False a0 t3), Ai (add t5 a0 a1),
                                Ci (sc_w False True a4 t3 t5), Ci (bnez a4 ''retry'')]
                         + 5 * sc_failures s + 1)
                      [Ai (Add t3 a2 (OpReg a3)), Ci (bind_label ''retry''),
                       Ci (lr_w True False a0 t3), Ai (add t5 a0 a1),
                       Ci (sc_w False True a4 t3 t5), Ci (bnez a4 ''retry'')] (Running 0 s)
            in exit_of c = Some FellThrough
             \<and> mem (state_of c) = store32 (mem s) addr (binop_val kAdd (load32 (mem s) addr) (get_x s a1))
             \<and> get_x (state_of c) a0 = load32 (mem s) addr
             \<and> sc_failures (state_of c) = 0"
    by simp_all
  note ws = this(2) [rule_format, of ?s]
  have l1: "length [Ai (Add t3 a2 (OpReg a3)), Ci (bind_label ''retry''),
                    Ci (lr_w True False a0 t3), Ai (add t5 a0 a1),
                    Ci (sc_w False True a4 t3 t5), Ci (bnez a4 ''retry'')]
             + 5 * sc_failures ?s + 1 = 17"
    by simp
  from ws
  have ws': "exit_of (run 17 [Ai (Add t3 a2 (OpReg a3)), Ci (bind_label ''retry''),
                       Ci (lr_w True False a0 t3), Ai (add t5 a0 a1),
                       Ci (sc_w False True a4 t3 t5), Ci (bnez a4 ''retry'')]
                  (Running 0 ?s)) = Some FellThrough"
    "mem (state_of (run 17 [Ai (Add t3 a2 (OpReg a3)), Ci (bind_label ''retry''),
                       Ci (lr_w True False a0 t3), Ai (add t5 a0 a1),
                       Ci (sc_w False True a4 t3 t5), Ci (bnez a4 ''retry'')]
                  (Running 0 ?s)))
       = store32 (mem ?s) (get_x ?s a2 + get_x ?s a3 + word_of_int 0)
           (binop_val kAdd (load32 (mem ?s) (get_x ?s a2 + get_x ?s a3 + word_of_int 0)) (get_x ?s a1))"
    unfolding Let_def l1 by blast+
  have w2: "exit_of (run 17 [Ai (Add t3 a2 (OpReg a3)), Ci (bind_label ''retry''),
                       Ci (lr_w True False a0 t3), Ai (add t5 a0 a1),
                       Ci (sc_w False True a4 t3 t5), Ci (bnez a4 ''retry'')]
                  (Running 0 ?s)) = Some FellThrough"
    and w3: "load32 (mem (state_of (run 17 [Ai (Add t3 a2 (OpReg a3)), Ci (bind_label ''retry''),
                                     Ci (lr_w True False a0 t3), Ai (add t5 a0 a1),
                                     Ci (sc_w False True a4 t3 t5), Ci (bnez a4 ''retry'')]
                  (Running 0 ?s)))) 256 = 5"
    unfolding ws' m by (simp_all add: load32_store32_same)
  from atomic_rmw_sequences [OF h t2 c2]
  have b: "AtomicExchange a2 a3 0 (GpReg a1) (GpReg a0) kI32Store8 new_assembler
       = Inr (emits [Ai (Add t3 a2 (OpReg a3)), Ci (bind_label ''retry''),
                     Mi (lbu a0 t3 0), Ci sync, Ai (mv t5 a1), Ci sync, Mi (sb t5 t3 0), Ci sync,
                     Ai (mv a4 zero_reg), Ci (bnez a4 ''retry'')] new_assembler)"
    and "\<forall>s. let addr = get_x s a2 + get_x s a3 + word_of_int 0;
                c = run (length [Ai (Add t3 a2 (OpReg a3)), Ci (bind_label ''retry''),
                     Mi (lbu a0 t3 0), Ci sync, Ai (mv t5 a1), Ci sync, Mi (sb t5 t3 0), Ci sync,
                     Ai (mv a4 zero_reg), Ci (bnez a4 ''retry'')] + 1)
                      [Ai (Add t3 a2 (OpReg a3)), Ci (bind_label ''retry''),
                     Mi (lbu a0 t3 0), Ci sync, Ai (mv t5 a1), Ci sync, Mi (sb t5 t3 0), Ci sync,
                     Ai (mv a4 zero_reg), Ci (bnez a4 ''retry'')] (Running 0 s)
            in exit_of c = Some FellThrough
             \<and> mem (state_of c) = store8 (mem s) addr (binop_val kExchange (load8 (mem s) addr) (get_x s a1))
             \<and> get_x (state_of c) a0 = load8 (mem s) addr
             \<and> sc_failures (state_of c) = sc_failures s"
    by simp_all
  note bs = this(2) [rule_format, of ?s]
  have l2: "length [Ai (Add t3 a2 (OpReg a3)), Ci (bind_label ''retry''),
                     Mi (lbu a0 t3 0), Ci sync, Ai (mv t5 a1), Ci sync, Mi (sb t5 t3 0), Ci sync,
                     Ai (mv a4 zero_reg), Ci (bnez a4 ''retry'')] + 1 = 11"
    by simp
  from bs
  have b2: "exit_of (run 11 [Ai (Add t3 a2 (OpReg a3)), Ci (bind_label ''retry''),
                     Mi (lbu a0 t3 0), Ci sync, Ai (mv t5 a1), Ci sync, Mi (sb t5 t3 0), Ci sync,
                     Ai (mv a4 zero_reg), Ci (bnez a4 ''retry'')]
                  (Running 0 ?s)) = Some FellThrough"
    unfolding Let_def l2 by blast
  from h(1,2) w w2 w3 b b2 show ?thesis
    by (intro conjI)
qed

text \<open>
  C2, at a 64-bit access. A 64-bit value is held in a register pair, and \<open>AtomicBinop\<close>
  asks for the single register of the operand and of the result: the check of the
  accessor fails and no sequence is emitted. Given single registers, the sequence for
  \<open>kI64Store\<close> pairs the 64-bit load-reserved with the 32-bit store-conditional, and the
  32-bit machine has no 64-bit load-reserved: the run ends at it. So there is no retry
  loop over a pair of words. At an 8-bit access the sequence is the load, a fence, the
  operation, a fence, the store, a fence: there is no fence before the load.
\<close>

theorem AtomicBinop_i64_fails:
  "AtomicAdd a2 a3 0 (GpPair a1 (XReg 16)) (GpPair a0 (XReg 17)) kI64Store new_assembler
     = Inl DCheckFailed
   \<and> AtomicAdd a2 a3 0 (GpReg a1) (GpReg a0) kI64Store new_assembler
     = Inr (emits [Ai (Add t3 a2 (OpReg a3)), Ci (bind_label ''retry''),
                   Ci (lr_d True False a0 t3), Ai (add t5 a0 a1),
                   Ci (sc_w False True a4 t3 t5), Ci (bnez a4 ''retry'')] new_assembler)
   \<and> exit_of (run 6 [Ai (Add t3 a2 (OpReg a3)), Ci (bind_label ''retry''),
                   Ci (lr_d True False a0 t3), Ai (add t5 a0 a1),
                   Ci (sc_w False True a4 t3 t5), Ci (bnez a4 ''retry'')] (Running 0 zero_machine))
       = Some IllegalInstr
   \<and> AtomicAdd a2 a3 0 (GpReg a1) (GpReg a0) kI32Store8 new_assembler
     = Inr (emits [Ai (Add t3 a2 (OpReg a3)), Ci (bind_label ''retry''),
                   Mi (lbu a0 t3 0), Ci sync, Ai (add t5 a0 a1), Ci sync,
                   Mi (sb t5 t3 0), Ci sync, Ai (mv a4 zero_reg),
                   Ci (bnez a4 ''retry'')] new_assembler)"
proof -
  have 1: "AtomicAdd a2 a3 0 (GpPair a1 (XReg 16)) (GpPair a0 (XReg 17)) kI64Store new_assembler
     = Inl DCheckFailed"
    by (simp add: AtomicAdd_def AtomicBinop_def GetUnusedRegister_def new_assembler_def
        bind_err_def dcheck_def Let_def reg_defs)
  have 2: "AtomicAdd a2 a3 0 (GpReg a1) (GpReg a0) kI64Store new_assembler
     = Inr (emits [Ai (Add t3 a2 (OpReg a3)), Ci (bind_label ''retry''),
                   Ci (lr_d True False a0 t3), Ai (add t5 a0 a1),
                   Ci (sc_w False True a4 t3 t5), Ci (bnez a4 ''retry'')] new_assembler)"
    by (simp add: AtomicAdd_def AtomicBinop_def GetUnusedRegister_def new_assembler_def
        bind_err_def dcheck_def Let_def Acquire_def CalculateActualAddress_def)
  have 3: "exit_of (run 6 [Ai (Add t3 a2 (OpReg a3)), Ci (bind_label ''retry''),
                   Ci (lr_d True False a0 t3), Ai (add t5 a0 a1),
                   Ci (sc_w False True a4 t3 t5), Ci (bnez a4 ''retry'')] (Running 0 zero_machine))
       = Some IllegalInstr"
    by (simp add: exec_simps)
  have 4: "AtomicAdd a2 a3 0 (GpReg a1) (GpReg a0) kI32Store8 new_assembler
     = Inr (emits [Ai (Add t3 a2 (OpReg a3)), Ci (bind_label ''retry''),
                   Mi (lbu a0 t3 0), Ci sync, Ai (add t5 a0 a1), Ci sync,
                   Mi (sb t5 t3 0), Ci sync, Ai (mv a4 zero_reg),
                   Ci (bnez a4 ''retry'')] new_assembler)"
    by (simp add: AtomicAdd_def AtomicBinop_def GetUnusedRegister_def new_assembler_def
        bind_err_def dcheck_def Let_def Acquire_def CalculateActualAddress_def)
  from 1 2 3 4 show ?thesis by blast
qed

section \<open>Atomic compare-exchange\<close>

text \<open>
  C3. A word-sized compare-exchange whose result register is the register of the
  expected value (\<open>a1\<close>), address \<open>a2 + a3\<close>, new value in \<open>a4\<close>. The value is loaded
  into a fresh register (\<open>a0\<close>), but the branch that should leave the loop compares
  \<open>result.gp()\<close>, that is \<open>a1\<close>, with the expected value, that is \<open>a1\<close> again. In every
  machine state the first four calls leave control at the store-conditional, with the
  loaded value in \<open>a0\<close>: the store is attempted also when the loaded value differs from
  the expected one, as in the state where memory is zero and \<open>a1\<close> holds 7.
\<close>

theorem AtomicCompareExchange_aliased_result:
  "AtomicCompareExchange a2 a3 0 (GpReg a1) (GpReg a4) (GpReg a1) kI32Store new_assembler
     = Inr (emits cmpxchg_aliased_code new_assembler)
   \<and> cmpxchg_aliased_code ! 3 = Ci (Branch ''done'' ne a1 (OpReg a1))
   \<and> cmpxchg_aliased_code ! 4 = Ci (sc_w True True t5 a4 t3)
   \<and> (\<forall>s. pc_of (run 4 cmpxchg_aliased_code (Running 0 s)) = Some 4
          \<and> get_x (state_of (run 4 cmpxchg_aliased_code (Running 0 s))) a0
              = load32 (mem s) (get_x s a2 + get_x s a3))
   \<and> load32 (mem (set_x a1 7 zero_machine))
        (get_x (set_x a1 7 zero_machine) a2 + get_x (set_x a1 7 zero_machine) a3)
       \<noteq> get_x (set_x a1 7 zero_machine) a1"
proof -
  have 1: "AtomicCompareExchange a2 a3 0 (GpReg a1) (GpReg a4) (GpReg a1) kI32Store new_assembler
     = Inr (emits cmpxchg_aliased_code new_assembler)"
    by (simp add: AtomicCompareExchange_def bind_err_def dcheck_def GetUnusedRegister_def
        Acquire_def CalculateActualAddress_def new_assembler_def cmpxchg_aliased_code_def)
  have 2: "cmpxchg_aliased_code ! 3 = Ci (Branch ''done'' ne a1 (OpReg a1))"
    "cmpxchg_aliased_code ! 4 = Ci (sc_w True True t5 a4 t3)"
    by (simp_all add: cmpxchg_aliased_code_def)
  have 3: "pc_of (run 4 cmpxchg_aliased_code (Running 0 s)) = Some 4
          \<and> get_x (state_of (run 4 cmpxchg_aliased_code (Running 0 s))) a0
              = load32 (mem s) (get_x s a2 + get_x s a3)" for s
    by (simp add: cmpxchg_aliased_code_def exec_simps)
  have 4: "load32 (mem (set_x a1 7 zero_machine))
        (get_x (set_x a1 7 zero_machine) a2 + get_x (set_x a1 7 zero_machine) a3)
       \<noteq> get_x (set_x a1 7 zero_machine) a1"
    by (simp add: get_x_set_x)
  from 1 2 3 4 show ?thesis by blast
qed

section \<open>Patching the stack frame\<close>



section \<open>SIMD minimum and maximum\<close>





section \<open>Lane replace and extract\<close>

text \<open>
  C7, at the shapes with 64-bit lanes. A 64-bit integer is held in a register pair, and
  \<open>emit_i64x2_replace_lane\<close> and \<open>emit_i64x2_extract_lane\<close> ask for the single
  register of the value: the check of the accessor fails. Given a single register they
  write its sign-extension into the lane (all ones in the upper half for \<open>0x80000000\<close>),
  so no lane value with another upper half can be written. The code of
  \<open>emit_f64x2_replace_lane\<close> moves the 64-bit floating-point register to a 32-bit
  register, and that of \<open>emit_i8x16_extract_lane_u\<close> shifts by 56: neither instruction
  exists on the 32-bit machine. So \<open>replace_lane\<close> followed by \<open>extract_lane\<close> does
  not give back the value for these shapes.
\<close>

theorem lane_replace_64_fails:
  "emit_i64x2_replace_lane (FpReg (FReg 5)) (FpReg (FReg 2)) (GpPair a0 a1) 0 new_assembler
     = Inl DCheckFailed
   \<and> emit_i64x2_extract_lane (GpPair a0 a1) (FpReg (FReg 5)) 0 new_assembler = Inl DCheckFailed
   \<and> emit_i64x2_replace_lane (FpReg (FReg 5)) (FpReg (FReg 2)) (GpReg a0) 0 new_assembler
     = Inr (emits [Vi (VU_set kScratchReg E64 m1), Ai (li kScratchReg 1),
                   Vi (vmv_sx v0 kScratchReg), Vi (vmerge_vx (VReg 5) a0 (VReg 2))] new_assembler)
   \<and> lane 64 (vregs (state_of (run 4 [Vi (VU_set kScratchReg E64 m1), Ai (li kScratchReg 1),
                   Vi (vmv_sx v0 kScratchReg), Vi (vmerge_vx (VReg 5) a0 (VReg 2))]
               (Running 0 (set_x a0 0x80000000 zero_machine)))) (VReg 5)) 0 = 0xFFFFFFFF80000000
   \<and> emit_f64x2_replace_lane (FpReg (FReg 5)) (FpReg (FReg 2)) (FpReg (FReg 3)) 0 new_assembler
     = Inr (emits [Vi (VU_set kScratchReg E64 m1), Ai (li kScratchReg 1),
                   Vi (vmv_sx v0 kScratchReg), Vi (fmv_x_d kScratchReg (FReg 3)),
                   Vi (vmerge_vx (VReg 5) kScratchReg (VReg 2))] new_assembler)
   \<and> exit_of (run 5 [Vi (VU_set kScratchReg E64 m1), Ai (li kScratchReg 1),
                   Vi (vmv_sx v0 kScratchReg), Vi (fmv_x_d kScratchReg (FReg 3)),
                   Vi (vmerge_vx (VReg 5) kScratchReg (VReg 2))] (Running 0 zero_machine))
       = Some IllegalInstr
   \<and> emit_i8x16_extract_lane_u (GpReg a0) (FpReg (FReg 5)) 0 new_assembler
     = Inr (emits [Vi (VU_set kScratchReg E8 m1), Vi (vslidedown_vi kSimd128ScratchReg (VReg 5) 0),
                   Vi (vmv_xs a0 kSimd128ScratchReg), Ai (slli a0 a0 56), Ai (srli a0 a0 56)]
              new_assembler)
   \<and> exit_of (run 5 [Vi (VU_set kScratchReg E8 m1), Vi (vslidedown_vi kSimd128ScratchReg (VReg 5) 0),
                   Vi (vmv_xs a0 kSimd128ScratchReg), Ai (slli a0 a0 56), Ai (srli a0 a0 56)]
               (Running 0 zero_machine))
       = Some IllegalInstr"
proof -
  have 1: "emit_i64x2_replace_lane (FpReg (FReg 5)) (FpReg (FReg 2)) (GpPair a0 a1) 0 new_assembler
     = Inl DCheckFailed"
    "emit_i64x2_extract_lane (GpPair a0 a1) (FpReg (FReg 5)) 0 new_assembler = Inl DCheckFailed"
    by (simp_all add: emit_i64x2_replace_lane_def emit_i64x2_extract_lane_def bind_err_def dcheck_def)
  have 2: "emit_i64x2_replace_lane (FpReg (FReg 5)) (FpReg (FReg 2)) (GpReg a0) 0 new_assembler
     = Inr (emits [Vi (VU_set kScratchReg E64 m1), Ai (li kScratchReg 1),
                   Vi (vmv_sx v0 kScratchReg), Vi (vmerge_vx (VReg 5) a0 (VReg 2))] new_assembler)"
    by (simp add: emit_i64x2_replace_lane_def bind_err_def dcheck_def)
  have v: "vregs (state_of (run 4 [Vi (VU_set kScratchReg E64 m1), Ai (li kScratchReg 1),
                   Vi (vmv_sx v0 kScratchReg), Vi (vmerge_vx (VReg 5) a0 (VReg 2))]
               (Running 0 (set_x a0 0x80000000 zero_machine)))) (VReg 5)
        = map_lanes 64 (\<lambda>i. if bit (map_lanes 64 (\<lambda>i. if i = 0 then scalar_elem 64 1 else lane 64 0 i)) i
                              then scalar_elem 64 0x80000000 else lane 64 0 i)"
    by (simp add: exec_simps set_v_def Let_def v0_def cong: if_cong)
  have 3: "lane 64 (vregs (state_of (run 4 [Vi (VU_set kScratchReg E64 m1), Ai (li kScratchReg 1),
                   Vi (vmv_sx v0 kScratchReg), Vi (vmerge_vx (VReg 5) a0 (VReg 2))]
               (Running 0 (set_x a0 0x80000000 zero_machine)))) (VReg 5)) 0 = 0xFFFFFFFF80000000"
    unfolding v by (simp add: lane_map_lanes bit_map_lanes scalar_elem_def)
  have 4: "emit_f64x2_replace_lane (FpReg (FReg 5)) (FpReg (FReg 2)) (FpReg (FReg 3)) 0 new_assembler
     = Inr (emits [Vi (VU_set kScratchReg E64 m1), Ai (li kScratchReg 1),
                   Vi (vmv_sx v0 kScratchReg), Vi (fmv_x_d kScratchReg (FReg 3)),
                   Vi (vmerge_vx (VReg 5) kScratchReg (VReg 2))] new_assembler)"
    by (simp add: emit_f64x2_replace_lane_def bind_err_def dcheck_def)
  have 5: "exit_of (run 5 [Vi (VU_set kScratchReg E64 m1), Ai (li kScratchReg 1),
                   Vi (vmv_sx v0 kScratchReg), Vi (fmv_x_d kScratchReg (FReg 3)),
                   Vi (vmerge_vx (VReg 5) kScratchReg (VReg 2))] (Running 0 zero_machine))
       = Some IllegalInstr"
    by (simp add: exec_simps Let_def)
  have 6: "emit_i8x16_extract_lane_u (GpReg a0) (FpReg (FReg 5)) 0 new_assembler
     = Inr (emits [Vi (VU_set kScratchReg E8 m1), Vi (vslidedown_vi kSimd128ScratchReg (VReg 5) 0),
                   Vi (vmv_xs a0 kSimd128ScratchReg), Ai (slli a0 a0 56), Ai (srli a0 a0 56)]
              new_assembler)"
    by (simp add: emit_i8x16_extract_lane_u_def bind_err_def dcheck_def)
  have 7: "exit_of (run 5 [Vi (VU_set kScratchReg E8 m1), Vi (vslidedown_vi kSimd128ScratchReg (VReg 5) 0),
                   Vi (vmv_xs a0 kSimd128ScratchReg), Ai (slli a0 a0 56), Ai (srli a0 a0 56)]
               (Running 0 zero_machine))
       = Some IllegalInstr"
    by (simp add: exec_simps Let_def)
  from 1 2 3 4 5 6 7 show ?thesis by blast
qed

end
